theory Spec2Isabelle
  imports Complex_Main
begin

section \<open>Values of the host language\<close>

text \<open>
  The viewer (\<^verbatim>\<open>panorama-reality/reality.ts\<close>) is a script of module-level variables and
  event handlers. Numbers are modelled as reals. A quotient of two numbers is the one place
  where the script tests for a non-finite result, so division is modelled with an option:
  \<open>None\<close> stands for \<^verbatim>\<open>Infinity\<close> or \<^verbatim>\<open>NaN\<close>.
\<close>

datatype error =
    ExpectedImageUrl      \<comment> \<open>\<^verbatim>\<open>Error('Expected an equirectangular image url!')\<close>\<close>
  | ExpectedUrl           \<comment> \<open>\<^verbatim>\<open>Error('Expected a url')\<close>\<close>
  | UnknownEasing         \<comment> \<open>\<^verbatim>\<open>Error('Unknown easing: ' + easing)\<close>\<close>
  | UnknownPano string    \<comment> \<open>\<^verbatim>\<open>Error('Unknown pano: ' + url + ...)\<close>\<close>
  | TypeError             \<comment> \<open>reading a property of \<^verbatim>\<open>undefined\<close>\<close>
  | DeveloperError        \<comment> \<open>thrown by a library argument check\<close>

definition js_div :: "real \<Rightarrow> real \<Rightarrow> real option" where
  "js_div a b = (if b = 0 then None else Some (a / b))"

text \<open>\<^verbatim>\<open>x || 0\<close> for an optional number: an absent value and \<open>0\<close> both give \<open>0\<close>.\<close>

definition or0 :: "real option \<Rightarrow> real" where
  "or0 x = (case x of None \<Rightarrow> 0 | Some v \<Rightarrow> v)"

definition RADIANS_PER_DEGREE :: real where
  "RADIANS_PER_DEGREE = pi / 180"

definition DEGREES_PER_RADIAN :: real where
  "DEGREES_PER_RADIAN = 180 / pi"

definition PI_OVER_TWO :: real where
  "PI_OVER_TWO = pi / 2"

text \<open>
  Objects reached by property paths (the table \<^verbatim>\<open>TWEEN.Easing\<close>, the global \<^verbatim>\<open>self\<close>):
  a function is named, an object is its list of properties. Properties that a function
  object inherits are not part of the model.
\<close>

datatype jsval = Undefined | Function string | Object "(string \<times> jsval) list"

fun truthy :: "jsval \<Rightarrow> bool" where
  "truthy Undefined = False"
| "truthy (Function f) = True"
| "truthy (Object ps) = True"

fun get_prop :: "jsval \<Rightarrow> string \<Rightarrow> error + jsval" where
  "get_prop Undefined k = Inl TypeError"
| "get_prop (Function f) k = Inr Undefined"
| "get_prop (Object ps) k = Inr (case map_of ps k of None \<Rightarrow> Undefined | Some v \<Rightarrow> v)"

text \<open>\<^verbatim>\<open>path.split('.')\<close>\<close>

fun split_dot :: "string \<Rightarrow> string list" where
  "split_dot [] = [[]]"
| "split_dot (c # cs) =
     (if c = CHR ''.'' then [] # split_dot cs
      else (case split_dot cs of [] \<Rightarrow> [[c]] | w # ws \<Rightarrow> (c # w) # ws))"

text \<open>
  \<^verbatim>\<open>path.split('.').reduce(function(prev, curr) {
      return !safe ? prev[curr] : (prev ? prev[curr] : undefined) }, obj || self)\<close>
\<close>

fun reduce_path :: "bool \<Rightarrow> jsval \<Rightarrow> string list \<Rightarrow> error + jsval" where
  "reduce_path safe prev [] = Inr prev"
| "reduce_path safe prev (k # ks) =
     (case (if \<not> safe then get_prop prev k
            else if truthy prev then get_prop prev k else Inr Undefined) of
        Inl e \<Rightarrow> Inl e
      | Inr v \<Rightarrow> reduce_path safe v ks)"

definition resolve :: "jsval \<Rightarrow> string option \<Rightarrow> jsval \<Rightarrow> bool \<Rightarrow> error + jsval" where
  "resolve self path obj safe =
     (case path of
        None \<Rightarrow> Inr Undefined
      | Some p \<Rightarrow>
          if p = [] then Inr Undefined
          else reduce_path safe (if truthy obj then obj else self) (split_dot p))"

section \<open>Geometry supplied by the libraries\<close>

type_synonym cartesian3 = "real \<times> real \<times> real"

record quaternion =
  qx :: real
  qy :: real
  qz :: real
  qw :: real

text \<open>
  An orientation stored on the virtual eye. The drag angle is a quotient by the viewport
  width; when that quotient is not finite every component of the resulting quaternion is
  \<^verbatim>\<open>NaN\<close>, which is the value \<open>QuatNaN\<close>.
\<close>

datatype qvalue = Quat quaternion | QuatNaN

definition UNIT_X :: cartesian3 where "UNIT_X = (1, 0, 0)"
definition UNIT_Y :: cartesian3 where "UNIT_Y = (0, 1, 0)"
definition ZERO :: cartesian3 where "ZERO = (0, 0, 0)"

datatype ReferenceFrame = FIXED | INERTIAL

text \<open>The anchor entity of a panorama: both properties stay unset without a geo-anchor.\<close>

record entity =
  position :: "(cartesian3 \<times> ReferenceFrame) option"
  orientation :: "quaternion option"

text \<open>
  The virtual eye is an entity whose position, once set, is the zero offset in the frame
  of a panorama's anchor entity.
\<close>

record virtual_eye =
  eye_orientation :: qvalue
  eye_position :: "(cartesian3 \<times> entity) option"

record frustum =
  fov :: "real option"
  aspectRatio :: "real option"
  near :: real
  far :: real
  xOffset :: real
  yOffset :: real

text \<open>
  The functions of Cesium and Argon that the script calls are parameters of the model; the
  type \<open>'m\<close> is the library's 4x4 matrix. \<open>fromDegrees\<close> receives the latitude as the
  script passes it, possibly undefined, and may throw.
\<close>

record 'm library =
  fromDegrees :: "real \<Rightarrow> real option \<Rightarrow> real \<Rightarrow> error + cartesian3"
  headingPitchRollQuaternion :: "cartesian3 \<Rightarrow> real \<Rightarrow> real \<Rightarrow> real \<Rightarrow> quaternion"
  fromAxisAngle :: "cartesian3 \<Rightarrow> real \<Rightarrow> quaternion"
  multiply :: "quaternion \<Rightarrow> quaternion \<Rightarrow> quaternion"
  getEntityOrientationInReferenceFrame :: "virtual_eye \<Rightarrow> real \<Rightarrow> entity \<Rightarrow> qvalue option"
  decomposePerspectiveProjectionMatrix :: "'m \<Rightarrow> frustum \<Rightarrow> frustum"
  frustum_projectionMatrix :: "frustum \<Rightarrow> 'm"

section \<open>Module state\<close>

record PanoramaInfo =
  url :: string
  longitude :: "real option"
  latitude :: "real option"
  height :: "real option"
  offsetDegrees :: "real option"

text \<open>
  A registry entry. Its \<open>texture\<close> is the identity of the promise created by the load that
  made the entry, so two entries made by different loads are different values.
\<close>

record Panorama = PanoramaInfo +
  entity :: entity
  texture :: nat

datatype filter = LinearFilter | LinearMipMapLinearFilter

record texture_image =
  image :: string
  minFilter :: filter

datatype 'a promise = Pending | Fulfilled 'a | Rejected string

record material =
  tex_map :: "texture_image option"
  opacity :: real
  needsUpdate :: bool
  transparent :: bool

record mesh =
  material :: material
  rotation_y :: real
  scale :: "real \<times> real \<times> real"
  renderOrder :: int

text \<open>
  A started tween on the material of one sphere: \<open>tw_from\<close> is the opacity the material had
  when \<^verbatim>\<open>start()\<close> ran, \<open>tw_to\<close> the target given to \<^verbatim>\<open>to()\<close>.
\<close>

record tween =
  tw_object :: nat
  tw_from :: real
  tw_to :: real
  tw_duration :: "real option"
  tw_easing :: jsval

text \<open>
  A request handed to the texture loader (lines 226-231). A callback is named by what it
  does to a promise. The script passes \<^verbatim>\<open>onLoad\<close> only, a function that resolves the
  promise it was created in; it passes no \<^verbatim>\<open>onError\<close>, and the promise's executor does not
  even take \<^verbatim>\<open>reject\<close>.
\<close>

datatype reaction = ResolvePromise nat | RejectPromise nat

record load_request =
  req_url :: string
  req_onLoad :: reaction
  req_onError :: "reaction option"

record reality =
  panoramas :: "string \<rightharpoonup> Panorama"
  currentPano :: "Panorama option"
  panoSpheres :: "mesh list"
  currentSphere :: nat
  virtualEye :: virtual_eye
  scratch_frustum :: frustum
  tweens :: "tween list"
  promises :: "nat \<rightharpoonup> texture_image promise"
  next_promise :: nat
  requests :: "load_request list"
  then_bind :: "(nat \<times> nat) list"

record Transition =
  easing :: "string option"
  duration :: "real option"

record ShowPanoramaOptions =
  show_url :: string
  transition :: "Transition option"

text \<open>The table \<^verbatim>\<open>TWEEN.Easing\<close> and the global object, as the script finds them.\<close>

record js_env =
  TWEEN_Easing :: jsval
  global_self :: jsval

text \<open>
  The two sphere meshes as the script sets them up: shared geometry, a transparent basic
  material, and the renderer's defaults for the rest.
\<close>

definition new_mesh :: mesh where
  "new_mesh =
     \<lparr>material = \<lparr>tex_map = None, opacity = 1, needsUpdate = False, transparent = True\<rparr>,
      rotation_y = 0, scale = (1, 1, 1), renderOrder = 0\<rparr>"

definition init_state :: "'m library \<Rightarrow> reality" where
  "init_state lib =
     \<lparr>panoramas = Map.empty,
      currentPano = None,
      panoSpheres = [new_mesh, new_mesh],
      currentSphere = 0,
      virtualEye = \<lparr>eye_orientation = Quat (fromAxisAngle lib UNIT_X PI_OVER_TWO),
                    eye_position = None\<rparr>,
      scratch_frustum = \<lparr>fov = None, aspectRatio = None, near = 1, far = 500000000,
                         xOffset = 0, yOffset = 0\<rparr>,
      tweens = [],
      promises = Map.empty,
      next_promise = 0,
      requests = [],
      then_bind = []\<rparr>"

section \<open>The panorama registry\<close>

definition defined :: "'a option \<Rightarrow> bool" where
  "defined x = (x \<noteq> None)"

text \<open>
  Lines 211-224 of the load handler: a fresh entity, given a position and an orientation
  under the guard the script writes, which tests the longitude twice.
\<close>

definition anchor_entity :: "'m library \<Rightarrow> PanoramaInfo \<Rightarrow> error + entity" where
  "anchor_entity lib pano =
     (let fresh = \<lparr>position = None, orientation = None\<rparr> in
      if defined (longitude pano) \<and> defined (longitude pano) then
        (case fromDegrees lib (the (longitude pano)) (latitude pano) (or0 (height pano)) of
           Inl e \<Rightarrow> Inl e
         | Inr positionValue \<Rightarrow>
             Inr (fresh\<lparr>position := Some (positionValue, FIXED),
                        orientation := Some (headingPitchRollQuaternion lib positionValue 0 0 0)\<rparr>))
      else Inr fresh)"

text \<open>
  The handler of \<^verbatim>\<open>edu.gatech.ael.panorama.loadPanorama\<close> (lines 205-248). A missing url
  and the empty string are both falsy and neither is ever a key of the registry; the model
  writes both as \<open>[]\<close>. The local \<^verbatim>\<open>offsetRadians\<close> is never read and is left out. The
  result is the state after the call and either the thrown error or the promise whose
  settlement the remote session is answered with (\<^verbatim>\<open>texture.then(()=>{})\<close>).
\<close>

definition loadPanorama :: "'m library \<Rightarrow> PanoramaInfo \<Rightarrow> reality \<Rightarrow> reality \<times> (error + nat)" where
  "loadPanorama lib pano s =
     (if url pano = [] then (s, Inl ExpectedImageUrl)
      else
        (case anchor_entity lib pano of
           Inl e \<Rightarrow> (s, Inl e)
         | Inr anchor \<Rightarrow>
             let tex = next_promise s;
                 s1 = s\<lparr>promises := (promises s)(tex \<mapsto> Pending),
                        next_promise := Suc tex,
                        requests := requests s @
                          [\<lparr>req_url = url pano, req_onLoad = ResolvePromise tex,
                            req_onError = None\<rparr>]\<rparr>;
                 s2 = s1\<lparr>panoramas := (panoramas s1)(url pano \<mapsto>
                          \<lparr>url = url pano, longitude = longitude pano,
                           latitude = latitude pano, height = height pano,
                           offsetDegrees = offsetDegrees pano,
                           entity = anchor, texture = tex\<rparr>)\<rparr>
             in (s2, Inr tex)))"

definition deletePanorama :: "string \<Rightarrow> reality \<Rightarrow> reality" where
  "deletePanorama u s = s\<lparr>panoramas := (panoramas s)(u := None)\<rparr>"

definition lookup :: "reality \<Rightarrow> string \<Rightarrow> Panorama option" where
  "lookup s u = panoramas s u"

section \<open>Texture promises\<close>

datatype load_result = Loaded texture_image | Failed

definition settle :: "nat \<Rightarrow> texture_image promise \<Rightarrow> reality \<Rightarrow> reality" where
  "settle n v s =
     (case promises s n of
        Some Pending \<Rightarrow> s\<lparr>promises := (promises s)(n \<mapsto> v)\<rparr>
      | _ \<Rightarrow> s)"

text \<open>
  What a loader callback does with the loader's result. \<open>ResolvePromise\<close> is the function
  the script passes as \<^verbatim>\<open>onLoad\<close>: it sets the filter and resolves.
\<close>

fun run_reaction :: "reaction \<Rightarrow> load_result \<Rightarrow> reality \<Rightarrow> reality" where
  "run_reaction (ResolvePromise n) (Loaded t) s = settle n (Fulfilled (t\<lparr>minFilter := LinearFilter\<rparr>)) s"
| "run_reaction (ResolvePromise n) Failed s = s"
| "run_reaction (RejectPromise n) r s = settle n (Rejected ''load failed'') s"

text \<open>
  The loader finishing request \<open>i\<close>: on success it calls \<^verbatim>\<open>onLoad\<close>, on failure it calls
  \<^verbatim>\<open>onError\<close> when the caller gave one.
\<close>

definition loader_finished :: "nat \<Rightarrow> load_result \<Rightarrow> reality \<Rightarrow> reality" where
  "loader_finished i r s =
     (if i < length (requests s) then
        (case r of
           Loaded t \<Rightarrow> run_reaction (req_onLoad (requests s ! i)) r s
         | Failed \<Rightarrow>
             (case req_onError (requests s ! i) of
                None \<Rightarrow> s
              | Some h \<Rightarrow> run_reaction h r s))
      else s)"

text \<open>The settlement of \<^verbatim>\<open>texture.then(()=>{})\<close>, read off the texture promise.\<close>

definition reply :: "reality \<Rightarrow> nat \<Rightarrow> unit promise" where
  "reply s n =
     (case promises s n of
        Some (Fulfilled t) \<Rightarrow> Fulfilled ()
      | Some (Rejected msg) \<Rightarrow> Rejected msg
      | _ \<Rightarrow> Pending)"

section \<open>The transition engine\<close>

definition update_sphere :: "nat \<Rightarrow> (mesh \<Rightarrow> mesh) \<Rightarrow> reality \<Rightarrow> reality" where
  "update_sphere i f s = s\<lparr>panoSpheres := (panoSpheres s)[i := f (panoSpheres s ! i)]\<rparr>"

definition update_material :: "nat \<Rightarrow> (material \<Rightarrow> material) \<Rightarrow> reality \<Rightarrow> reality" where
  "update_material i g s = update_sphere i (\<lambda>m. m\<lparr>material := g (material m)\<rparr>) s"

text \<open>
  The callbacks registered with \<^verbatim>\<open>panoIn.texture.then\<close>: a pair \<open>(p, i)\<close> binds the texture
  of promise \<open>p\<close> to the material of sphere \<open>i\<close> once \<open>p\<close> is fulfilled.
\<close>

fun run_then :: "(nat \<times> nat) list \<Rightarrow> reality \<Rightarrow> reality" where
  "run_then [] s = s"
| "run_then ((p, i) # cbs) s =
     (case promises s p of
        Some (Fulfilled t) \<Rightarrow>
          run_then cbs (update_material i (\<lambda>m. m\<lparr>tex_map := Some t, needsUpdate := True\<rparr>) s)
      | _ \<Rightarrow> (let s' = run_then cbs s in s'\<lparr>then_bind := (p, i) # then_bind s'\<rparr>))"

definition microtasks :: "reality \<Rightarrow> reality" where
  "microtasks s = run_then (then_bind s) (s\<lparr>then_bind := []\<rparr>)"

definition Easing_Linear_None :: "js_env \<Rightarrow> error + jsval" where
  "Easing_Linear_None env =
     (case get_prop (TWEEN_Easing env) ''Linear'' of
        Inl e \<Rightarrow> Inl e
      | Inr l \<Rightarrow> get_prop l ''None'')"

text \<open>
  Lines 278-318 of \<^verbatim>\<open>showPanorama\<close>, after the three checks. The material a tween
  animates is named by the index of its sphere; \<^verbatim>\<open>start()\<close> records the opacity the
  material has at that moment as the value the animation starts from.
\<close>

definition start_transition :: "Panorama \<Rightarrow> Transition \<Rightarrow> jsval \<Rightarrow> reality \<Rightarrow> reality \<times> (error + unit)" where
  "start_transition panoIn tr ease s =
     (let s1 = s\<lparr>currentPano := Some panoIn\<rparr>;
          s2 = s1\<lparr>virtualEye := (virtualEye s1)\<lparr>eye_position := Some (ZERO, entity panoIn)\<rparr>\<rparr>;
          sphereOut = currentSphere s2;
          s3 = s2\<lparr>currentSphere := (currentSphere s2 + 1) mod 2\<rparr>;
          sphereIn = currentSphere s3
      in
        if \<not> (sphereIn < length (panoSpheres s3) \<and> sphereOut < length (panoSpheres s3))
        then (s3, Inl TypeError)
        else
          (let s4 = update_material sphereIn
                      (\<lambda>m. m\<lparr>tex_map := None, opacity := 1, needsUpdate := True\<rparr>) s3;
               s5 = s4\<lparr>then_bind := then_bind s4 @ [(texture panoIn, sphereIn)]\<rparr>;
               s6 = update_sphere sphereIn
                      (\<lambda>m. m\<lparr>rotation_y := or0 (offsetDegrees panoIn) * RADIANS_PER_DEGREE\<rparr>) s5;
               s7 = update_sphere sphereIn (\<lambda>m. m\<lparr>scale := (- 1, 1, 1)\<rparr>) s6;
               s8 = update_sphere sphereOut (\<lambda>m. m\<lparr>scale := (- 0.9, 0.9, 0.9)\<rparr>) s7;
               s9 = update_sphere sphereIn (\<lambda>m. m\<lparr>renderOrder := 0\<rparr>) s8;
               s10 = update_sphere sphereOut (\<lambda>m. m\<lparr>renderOrder := 1\<rparr>) s9;
               s11 = s10\<lparr>tweens := []\<rparr>;
               outTween = \<lparr>tw_object = sphereOut,
                           tw_from = opacity (material (panoSpheres s11 ! sphereOut)),
                           tw_to = 0,
                           tw_duration = duration tr,
                           tw_easing = ease\<rparr>;
               s12 = s11\<lparr>tweens := tweens s11 @ [outTween]\<rparr>;
               s13 = update_material sphereOut (\<lambda>m. m\<lparr>opacity := 1, needsUpdate := True\<rparr>) s12
           in (s13, Inr ())))"

text \<open>
  Lines 267-277: the easing is resolved, with \<^verbatim>\<open>TWEEN.Easing.Linear.None\<close> taken when the
  name resolves to nothing, before the url and the easing are tested.
\<close>

definition showPanorama :: "js_env \<Rightarrow> ShowPanoramaOptions \<Rightarrow> reality \<Rightarrow> reality \<times> (error + unit)" where
  "showPanorama env options s =
     (let tr = (case transition options of
                     None \<Rightarrow> \<lparr>easing = None, duration = None\<rparr>
                   | Some t \<Rightarrow> t)
      in
        case resolve (global_self env) (easing tr) (TWEEN_Easing env) True of
          Inl e \<Rightarrow> (s, Inl e)
        | Inr r \<Rightarrow>
            (case (if truthy r then Inr r else Easing_Linear_None env) of
               Inl e \<Rightarrow> (s, Inl e)
             | Inr ease \<Rightarrow>
                 if show_url options = [] then (s, Inl ExpectedUrl)
                 else if \<not> truthy ease then (s, Inl UnknownEasing)
                 else
                   (case panoramas s (show_url options) of
                      None \<Rightarrow> (s, Inl (UnknownPano (show_url options)))
                    | Some panoIn \<Rightarrow> start_transition panoIn tr ease s)))"

section \<open>The command surface\<close>

datatype command =
    LoadPanorama PanoramaInfo
  | DeletePanorama string
  | ShowPanorama ShowPanoramaOptions

text \<open>
  One message from the controlling session: the handler runs, an error it throws goes back
  to the session, and the pending promise callbacks run before the next message.
\<close>

fun exec :: "'m library \<Rightarrow> js_env \<Rightarrow> command \<Rightarrow> reality \<Rightarrow> reality" where
  "exec lib env (LoadPanorama pano) s = microtasks (fst (loadPanorama lib pano s))"
| "exec lib env (DeletePanorama u) s = microtasks (deletePanorama u s)"
| "exec lib env (ShowPanorama options) s = microtasks (fst (showPanorama env options s))"

fun run :: "'m library \<Rightarrow> js_env \<Rightarrow> command list \<Rightarrow> reality \<Rightarrow> reality" where
  "run lib env [] s = s"
| "run lib env (c # cs) s = run lib env cs (exec lib env c s)"

section \<open>The frame-state listener\<close>

record viewport =
  vp_x :: real
  vp_y :: real
  vp_width :: real
  vp_height :: real

record 'm subview =
  sv_viewport :: viewport
  projectionMatrix :: 'm

record movement =
  startPosition :: "real \<times> real"
  endPosition :: "real \<times> real"

record pinch_movement =
  distance :: movement
  angleAndHeight :: movement

text \<open>
  What one tick reads from the host: the frame state, the device orientation query
  (\<open>None\<close> when the host has none), the field of view and viewport of the current view,
  and for each gesture the aggregator's movement when \<^verbatim>\<open>isMoving\<close> holds.
\<close>

record 'm frame_input =
  time :: real
  strict :: bool
  fs_viewport :: viewport
  fs_subviews :: "'m subview list"
  deviceUserOrientation :: "quaternion option"
  view_subviews_fov :: "real list"
  view_viewport_width :: real
  wheel :: "movement option"
  pinch :: "pinch_movement option"
  left_drag :: "movement option"

record 'm ContextFrameState =
  cfs_time :: real
  cfs_viewport :: viewport
  cfs_subviews :: "'m subview list"
  cfs_user :: virtual_eye

text \<open>Lines 116-128: the field of view of the current view, adjusted by wheel and pinch.\<close>

definition fuse_fov :: "real \<Rightarrow> movement option \<Rightarrow> pinch_movement option \<Rightarrow> real" where
  "fuse_fov view_fov wheelMovement pinchMovement =
     (let f0 = view_fov;
          f1 = (case wheelMovement of
                  None \<Rightarrow> f0
                | Some w \<Rightarrow>
                    (let diff = snd (endPosition w)
                     in min (max (f0 - diff * 0.02) (pi / 8)) (pi - pi / 8)));
          f2 = (case pinchMovement of
                  None \<Rightarrow> f1
                | Some p \<Rightarrow>
                    (let diff = snd (endPosition (distance p)) - snd (startPosition (distance p))
                     in min (max (f1 - diff * 0.02) (pi / 8)) (pi - pi / 8)))
      in f2)"

text \<open>\<^verbatim>\<open>Quaternion.multiply(left, right, result)\<close> on stored orientations.\<close>

fun qv_multiply :: "'m library \<Rightarrow> qvalue \<Rightarrow> qvalue \<Rightarrow> qvalue" where
  "qv_multiply lib (Quat l) (Quat r) = Quat (multiply lib l r)"
| "qv_multiply lib l r = QuatNaN"

text \<open>
  Lines 131-137: the orientation of the eye in the frame of the current panorama's entity,
  the yaw of the drag, and their product. Reading \<^verbatim>\<open>currentPano.entity\<close> throws while no
  panorama has been shown, and so does the product of an undefined orientation.
\<close>

definition drag_orientation :: "'m library \<Rightarrow> 'm frame_input \<Rightarrow> movement \<Rightarrow> real \<Rightarrow> reality \<Rightarrow> error + qvalue" where
  "drag_orientation lib frameState dragMovement frustum_fov s =
     (case currentPano s of
        None \<Rightarrow> Inl TypeError
      | Some pano \<Rightarrow>
          (let currentOrientation =
                 getEntityOrientationInReferenceFrame lib (virtualEye s) (time frameState) (entity pano);
               dragYaw =
                 (case js_div (frustum_fov * (fst (endPosition dragMovement) - fst (startPosition dragMovement)))
                         (view_viewport_width frameState) of
                    None \<Rightarrow> QuatNaN
                  | Some angle \<Rightarrow> Quat (fromAxisAngle lib UNIT_Y angle))
           in case currentOrientation of
                None \<Rightarrow> Inl TypeError
              | Some c \<Rightarrow> Inr (qv_multiply lib c dragYaw)))"

text \<open>
  Lines 141-145: every sub-view gets the projection of the one shared frustum, whose aspect
  ratio is the sub-view's viewport ratio, or \<open>1\<close> when that is not finite or is zero.
\<close>

definition viewport_aspect :: "viewport \<Rightarrow> real" where
  "viewport_aspect vp =
     (let aspect = js_div (vp_width vp) (vp_height vp)
      in case aspect of None \<Rightarrow> 1 | Some a \<Rightarrow> if a \<noteq> 0 then a else 1)"

fun update_projections :: "'m library \<Rightarrow> frustum \<Rightarrow> 'm subview list \<Rightarrow> frustum \<times> 'm subview list" where
  "update_projections lib fr [] = (fr, [])"
| "update_projections lib fr (sv # svs) =
     (let fr1 = fr\<lparr>aspectRatio := Some (viewport_aspect (sv_viewport sv))\<rparr>;
          sv1 = sv\<lparr>projectionMatrix := frustum_projectionMatrix lib fr1\<rparr>;
          rest = update_projections lib fr1 svs
      in (fst rest, sv1 # snd rest))"

text \<open>Lines 148-159: the frame state handed to the context.\<close>

definition submit :: "'m frame_input \<Rightarrow> 'm subview list \<Rightarrow> reality \<Rightarrow> 'm ContextFrameState" where
  "submit frameState subviews s =
     \<lparr>cfs_time = time frameState, cfs_viewport = fs_viewport frameState,
      cfs_subviews = subviews, cfs_user = virtualEye s\<rparr>"

definition publish :: "'m library \<Rightarrow> 'm frame_input \<Rightarrow> reality \<Rightarrow> reality \<times> (error + 'm ContextFrameState)" where
  "publish lib frameState s =
     (let r = update_projections lib (scratch_frustum s) (fs_subviews frameState);
          s1 = s\<lparr>scratch_frustum := fst r\<rparr>
      in (s1, Inr (submit frameState (snd r) s1)))"

text \<open>
  The listener of \<^verbatim>\<open>app.device.frameStateEvent\<close>. The result is the state the tick leaves
  and either the error that aborted it or the frame state it submitted.
\<close>

definition frame_handler :: "'m library \<Rightarrow> 'm frame_input \<Rightarrow> reality \<Rightarrow> reality \<times> (error + 'm ContextFrameState)" where
  "frame_handler lib frameState s =
     (let s1 = (case deviceUserOrientation frameState of
                  None \<Rightarrow> s
                | Some q \<Rightarrow> s\<lparr>virtualEye := (virtualEye s)\<lparr>eye_orientation := Quat q\<rparr>\<rparr>)
      in
        if strict frameState then (s1, Inr (submit frameState (fs_subviews frameState) s1))
        else
          (case fs_subviews frameState of
             [] \<Rightarrow> (s1, Inl TypeError)
           | sv0 # _ \<Rightarrow>
               (let s2 = s1\<lparr>scratch_frustum :=
                             decomposePerspectiveProjectionMatrix lib (projectionMatrix sv0)
                               (scratch_frustum s1)\<rparr>
                in
                  case view_subviews_fov frameState of
                    [] \<Rightarrow> (s2, Inl TypeError)
                  | view_fov # _ \<Rightarrow>
                      (let f = fuse_fov view_fov (wheel frameState) (pinch frameState);
                           s3 = s2\<lparr>scratch_frustum := (scratch_frustum s2)\<lparr>fov := Some f\<rparr>\<rparr>
                       in
                         case (if deviceUserOrientation frameState = None
                               then left_drag frameState else None) of
                           None \<Rightarrow> publish lib frameState s3
                         | Some dragMovement \<Rightarrow>
                             (case drag_orientation lib frameState dragMovement f s3 of
                                Inl e \<Rightarrow> (s3, Inl e)
                              | Inr newOrientation \<Rightarrow>
                                  publish lib frameState
                                    (s3\<lparr>virtualEye :=
                                          (virtualEye s3)\<lparr>eye_orientation := newOrientation\<rparr>\<rparr>))))))"

section \<open>The current panorama and the registry\<close>

text \<open>The current-panorama pointer, when set, is the entry the registry holds under its url.\<close>

definition pointer_in_registry :: "reality \<Rightarrow> bool" where
  "pointer_in_registry s =
     (case currentPano s of None \<Rightarrow> True | Some p \<Rightarrow> panoramas s (url p) = Some p)"

definition current_url :: "reality \<Rightarrow> string option" where
  "current_url s = map_option url (currentPano s)"

text \<open>
  A command sequence, run from a state, never deletes (never loads again) the url of the
  panorama that is current when the command arrives.
\<close>

fun never_deletes_current :: "'m library \<Rightarrow> js_env \<Rightarrow> command list \<Rightarrow> reality \<Rightarrow> bool" where
  "never_deletes_current lib env [] s = True"
| "never_deletes_current lib env (c # cs) s =
     ((case c of DeletePanorama u \<Rightarrow> current_url s \<noteq> Some u | _ \<Rightarrow> True)
      \<and> never_deletes_current lib env cs (exec lib env c s))"

fun never_reloads_current :: "'m library \<Rightarrow> js_env \<Rightarrow> command list \<Rightarrow> reality \<Rightarrow> bool" where
  "never_reloads_current lib env [] s = True"
| "never_reloads_current lib env (c # cs) s =
     ((case c of LoadPanorama pano \<Rightarrow> current_url s \<noteq> Some (url pano) | _ \<Rightarrow> True)
      \<and> never_reloads_current lib env cs (exec lib env c s))"

text \<open>Every registry entry is stored under its own url.\<close>

definition keyed_by_url :: "reality \<Rightarrow> bool" where
  "keyed_by_url s = (\<forall>u p. panoramas s u = Some p \<longrightarrow> url p = u)"

section \<open>The drag as the specification words it\<close>

text \<open>
  The specification's reading of the drag step: the yaw of angle
  \<open>fov * (dragDeltaX / viewportWidth)\<close> multiplied from the left into the current
  orientation. It is stated for comparison with \<open>drag_orientation\<close>.
\<close>

definition yaw_left_multiplied :: "'m library \<Rightarrow> real \<Rightarrow> real \<Rightarrow> real \<Rightarrow> quaternion \<Rightarrow> quaternion" where
  "yaw_left_multiplied lib fov_value dragDeltaX viewportWidth currentOrientation =
     multiply lib (fromAxisAngle lib UNIT_Y (fov_value * (dragDeltaX / viewportWidth)))
       currentOrientation"

section \<open>The projections as the specification words them\<close>

text \<open>The projection matrices a tick submitted, if it submitted.\<close>

definition submitted_projections :: "error + 'm ContextFrameState \<Rightarrow> 'm list option" where
  "submitted_projections r =
     (case r of Inl e \<Rightarrow> None | Inr out \<Rightarrow> Some (map projectionMatrix (cfs_subviews out)))"

text \<open>
  The specification's reading of the publisher: each sub-view's own host-provided
  projection is decomposed, its field of view overridden with the fused value and its
  aspect ratio recomputed from its own viewport. It is stated for comparison with
  \<open>update_projections\<close>.
\<close>

definition own_projection :: "'m library \<Rightarrow> frustum \<Rightarrow> real \<Rightarrow> 'm subview \<Rightarrow> 'm" where
  "own_projection lib scratch fused sv =
     frustum_projectionMatrix lib
       ((decomposePerspectiveProjectionMatrix lib (projectionMatrix sv) scratch)
          \<lparr>fov := Some fused, aspectRatio := Some (viewport_aspect (sv_viewport sv))\<rparr>)"

section \<open>A library instance for concrete runs\<close>

text \<open>
  The quaternion functions are the formulas of the library: the Hamilton product of
  \<open>left\<close> and \<open>right\<close>, and the rotation about a unit axis. Geodetic conversion is replaced
  by a stand-in that keeps the three coordinates (an absent latitude reads as \<open>0\<close>, where
  the library computes with \<^verbatim>\<open>NaN\<close>), the local frame by the identity rotation, and a
  projection matrix by the frustum it encodes. The eye's orientation in the frame it is
  positioned in is its own orientation.
\<close>

definition Quaternion_multiply :: "quaternion \<Rightarrow> quaternion \<Rightarrow> quaternion" where
  "Quaternion_multiply l r =
     \<lparr>qx = qw l * qx r + qx l * qw r + qy l * qz r - qz l * qy r,
      qy = qw l * qy r - qx l * qz r + qy l * qw r + qz l * qx r,
      qz = qw l * qz r + qx l * qy r - qy l * qx r + qz l * qw r,
      qw = qw l * qw r - qx l * qx r - qy l * qy r - qz l * qz r\<rparr>"

definition Quaternion_fromAxisAngle :: "cartesian3 \<Rightarrow> real \<Rightarrow> quaternion" where
  "Quaternion_fromAxisAngle axis angle =
     (case axis of (ax, ay, az) \<Rightarrow>
        \<lparr>qx = ax * sin (angle / 2), qy = ay * sin (angle / 2), qz = az * sin (angle / 2),
         qw = cos (angle / 2)\<rparr>)"

definition IDENTITY :: quaternion where
  "IDENTITY = \<lparr>qx = 0, qy = 0, qz = 0, qw = 1\<rparr>"

definition test_library :: "frustum library" where
  "test_library =
     \<lparr>fromDegrees = (\<lambda>lon lat h. Inr (lon, or0 lat, h)),
      headingPitchRollQuaternion = (\<lambda>p h pt r. IDENTITY),
      fromAxisAngle = Quaternion_fromAxisAngle,
      multiply = Quaternion_multiply,
      getEntityOrientationInReferenceFrame =
        (\<lambda>eye t frame. case eye_position eye of None \<Rightarrow> None | Some p \<Rightarrow> Some (eye_orientation eye)),
      decomposePerspectiveProjectionMatrix = (\<lambda>m result. m),
      frustum_projectionMatrix = (\<lambda>fr. fr)\<rparr>"

text \<open>The part of the easing table that the concrete runs name.\<close>

definition test_env :: js_env where
  "test_env =
     \<lparr>TWEEN_Easing = Object
        [(''Linear'', Object [(''None'', Function ''Linear.None'')]),
         (''Quadratic'', Object
            [(''In'', Function ''Quadratic.In''),
             (''Out'', Function ''Quadratic.Out''),
             (''InOut'', Function ''Quadratic.InOut'')])],
      global_self = Object []\<rparr>"

section \<open>Concrete inputs\<close>

definition example_viewport :: viewport where
  "example_viewport = \<lparr>vp_x = 0, vp_y = 0, vp_width = 800, vp_height = 600\<rparr>"

definition example_projection :: frustum where
  "example_projection =
     \<lparr>fov = Some (pi / 3), aspectRatio = Some (4 / 3), near = 1, far = 1000,
      xOffset = 0, yOffset = 0\<rparr>"

text \<open>A non-strict tick with one sub-view and a wheel movement of 100000 units.\<close>

definition wheel_frame :: "frustum frame_input" where
  "wheel_frame =
     \<lparr>time = 0, strict = False, fs_viewport = example_viewport,
      fs_subviews = [\<lparr>sv_viewport = example_viewport, projectionMatrix = example_projection\<rparr>],
      deviceUserOrientation = None,
      view_subviews_fov = [pi / 3],
      view_viewport_width = 800,
      wheel = Some \<lparr>startPosition = (0, 0), endPosition = (0, 100000)\<rparr>,
      pinch = None,
      left_drag = None\<rparr>"

text \<open>
  A non-strict tick without device orientation and with a horizontal drag across the whole
  viewport width.
\<close>

definition drag_frame :: "frustum frame_input" where
  "drag_frame =
     \<lparr>time = 0, strict = False, fs_viewport = example_viewport,
      fs_subviews = [\<lparr>sv_viewport = example_viewport, projectionMatrix = example_projection\<rparr>],
      deviceUserOrientation = None,
      view_subviews_fov = [pi / 2],
      view_viewport_width = 800,
      wheel = None,
      pinch = None,
      left_drag = Some \<lparr>startPosition = (0, 0), endPosition = (800, 0)\<rparr>\<rparr>"

definition example_texture :: texture_image where
  "example_texture = \<lparr>image = ''a.jpg'', minFilter = LinearMipMapLinearFilter\<rparr>"

text \<open>Registrations: one with a longitude and no latitude, one without a geo-anchor, one with both.\<close>

definition lon_only :: PanoramaInfo where
  "lon_only = \<lparr>url = ''a.jpg'', longitude = Some 10, latitude = None, height = None,
                offsetDegrees = None\<rparr>"

definition p1_info :: PanoramaInfo where
  "p1_info = \<lparr>url = ''p1'', longitude = None, latitude = None, height = None,
               offsetDegrees = None\<rparr>"

definition p2_info :: PanoramaInfo where
  "p2_info = \<lparr>url = ''p2'', longitude = Some 10, latitude = Some 20, height = None,
               offsetDegrees = Some 90\<rparr>"

definition registered :: reality where
  "registered = run test_library test_env [LoadPanorama p1_info, LoadPanorama p2_info]
                  (init_state test_library)"

definition bogus_show :: ShowPanoramaOptions where
  "bogus_show = \<lparr>show_url = ''p1'',
                  transition = Some \<lparr>easing = Some ''Bogus'', duration = Some 1000\<rparr>\<rparr>"

text \<open>The scenario of two registrations followed by two shows.\<close>

definition show_p1 :: ShowPanoramaOptions where
  "show_p1 = \<lparr>show_url = ''p1'',
               transition = Some \<lparr>easing = Some ''Linear'', duration = Some 0\<rparr>\<rparr>"

definition show_p2 :: ShowPanoramaOptions where
  "show_p2 = \<lparr>show_url = ''p2'',
               transition = Some \<lparr>easing = Some ''Quadratic.InOut'', duration = Some 1000\<rparr>\<rparr>"

definition shown_p1 :: reality where
  "shown_p1 = fst (showPanorama test_env show_p1 registered)"

definition shown_p2 :: reality where
  "shown_p2 = fst (showPanorama test_env show_p2 (microtasks shown_p1))"

definition unknown_show :: ShowPanoramaOptions where
  "unknown_show = \<lparr>show_url = ''nowhere.jpg'',
                    transition = Some \<lparr>easing = Some ''Quadratic.InOut'', duration = Some 1000\<rparr>\<rparr>"

text \<open>Command sequences: one that loads the current url again, one that does not.\<close>

definition p1_moved :: PanoramaInfo where
  "p1_moved = \<lparr>url = ''p1'', longitude = Some 10, latitude = Some 20, height = None,
                offsetDegrees = None\<rparr>"

definition reload_commands :: "command list" where
  "reload_commands = [LoadPanorama p1_info, ShowPanorama show_p1, LoadPanorama p1_moved]"

definition other_commands :: "command list" where
  "other_commands = [LoadPanorama p1_info, ShowPanorama show_p1, LoadPanorama p2_info,
                     DeletePanorama ''p2'']"

text \<open>A stereo tick: two sub-views whose projections differ in their horizontal offset.\<close>

definition left_projection :: frustum where
  "left_projection =
     \<lparr>fov = Some (pi / 3), aspectRatio = Some (2 / 3), near = 1, far = 1000,
      xOffset = - 0.1, yOffset = 0\<rparr>"

definition right_projection :: frustum where
  "right_projection =
     \<lparr>fov = Some (pi / 3), aspectRatio = Some (2 / 3), near = 1, far = 1000,
      xOffset = 0.1, yOffset = 0\<rparr>"

definition stereo_frame :: "frustum frame_input" where
  "stereo_frame =
     \<lparr>time = 0, strict = False, fs_viewport = example_viewport,
      fs_subviews =
        [\<lparr>sv_viewport = \<lparr>vp_x = 0, vp_y = 0, vp_width = 400, vp_height = 600\<rparr>,
          projectionMatrix = left_projection\<rparr>,
         \<lparr>sv_viewport = \<lparr>vp_x = 400, vp_y = 0, vp_width = 400, vp_height = 600\<rparr>,
          projectionMatrix = right_projection\<rparr>],
      deviceUserOrientation = None,
      view_subviews_fov = [pi / 3, pi / 3],
      view_viewport_width = 800,
      wheel = None,
      pinch = None,
      left_drag = None\<rparr>"

text \<open>The two sphere slots exist and the active index addresses one of them.\<close>

definition wf_spheres :: "reality \<Rightarrow> bool" where
  "wf_spheres s = (length (panoSpheres s) = 2 \<and> currentSphere s < 2)"

section \<open>Evaluating the concrete inputs\<close>

lemmas eval_defs = registered_def init_state_def loadPanorama_def p1_info_def p2_info_def
  microtasks_def anchor_entity_def defined_def Let_def test_library_def or0_def new_mesh_def

lemma registered_p1:
  "panoramas registered ''p1'' =
     Some \<lparr>url = ''p1'', longitude = None, latitude = None, height = None, offsetDegrees = None,
           entity = \<lparr>position = None, orientation = None\<rparr>, texture = 0\<rparr>"
  by (simp add: eval_defs)

lemma registered_p2:
  "panoramas registered ''p2'' =
     Some \<lparr>url = ''p2'', longitude = Some 10, latitude = Some 20, height = None,
           offsetDegrees = Some 90,
           entity = \<lparr>position = Some ((10, 20, 0), FIXED), orientation = Some IDENTITY\<rparr>,
           texture = 1\<rparr>"
  by (simp add: eval_defs)

lemma registered_wf: "wf_spheres registered"
  by (simp add: wf_spheres_def eval_defs)

lemma registered_currentSphere: "currentSphere registered = 0"
  by (simp add: eval_defs)

lemmas run_defs = init_state_def loadPanorama_def p1_info_def p2_info_def p1_moved_def
  microtasks_def anchor_entity_def defined_def Let_def test_library_def or0_def new_mesh_def
  showPanorama_def start_transition_def show_p1_def resolve_def test_env_def
  update_material_def update_sphere_def deletePanorama_def current_url_def
  Easing_Linear_None_def

lemma reload_current:
  "currentPano (run test_library test_env reload_commands (init_state test_library)) =
     Some \<lparr>url = ''p1'', longitude = None, latitude = None, height = None, offsetDegrees = None,
           entity = \<lparr>position = None, orientation = None\<rparr>, texture = 0\<rparr>"
  by (simp add: reload_commands_def run_defs)

lemma reload_registry:
  "panoramas (run test_library test_env reload_commands (init_state test_library)) ''p1'' =
     Some \<lparr>url = ''p1'', longitude = Some 10, latitude = Some 20, height = None,
           offsetDegrees = None,
           entity = \<lparr>position = Some ((10, 20, 0), FIXED), orientation = Some IDENTITY\<rparr>,
           texture = 1\<rparr>"
  by (simp add: reload_commands_def run_defs)

lemma reload_never_deletes:
  "never_deletes_current test_library test_env reload_commands (init_state test_library)"
  by (simp add: reload_commands_def)

lemma other_never_deletes:
  "never_deletes_current test_library test_env other_commands (init_state test_library)"
  by (simp add: other_commands_def run_defs)

lemma other_never_reloads:
  "never_reloads_current test_library test_env other_commands (init_state test_library)"
  by (simp add: other_commands_def run_defs)

lemma other_current:
  "currentPano (run test_library test_env other_commands (init_state test_library)) \<noteq> None"
  by (simp add: other_commands_def run_defs)

lemma shown_p1_current:
  "currentPano shown_p1 =
     Some \<lparr>url = ''p1'', longitude = None, latitude = None, height = None, offsetDegrees = None,
           entity = \<lparr>position = None, orientation = None\<rparr>, texture = 0\<rparr>"
  by (simp add: shown_p1_def registered_def run_defs)

lemma shown_p1_eye:
  "virtualEye shown_p1 =
     \<lparr>eye_orientation = Quat (Quaternion_fromAxisAngle UNIT_X PI_OVER_TWO),
      eye_position = Some (ZERO, \<lparr>position = None, orientation = None\<rparr>)\<rparr>"
  by (simp add: shown_p1_def registered_def run_defs)

lemma drag_frame_facts:
  "\<not> strict drag_frame" "deviceUserOrientation drag_frame = None"
  "left_drag drag_frame = Some \<lparr>startPosition = (0, 0), endPosition = (800, 0)\<rparr>"
  "fs_subviews drag_frame \<noteq> []"
  "view_subviews_fov drag_frame = [pi / 2]"
  "view_viewport_width drag_frame \<noteq> 0"
  "view_viewport_width drag_frame = 800"
  "wheel drag_frame = None" "pinch drag_frame = None" "time drag_frame = 0"
  by (simp_all add: drag_frame_def)

lemma shown_p1_orientation_in_frame:
  "getEntityOrientationInReferenceFrame test_library (virtualEye shown_p1) (time drag_frame)
     (entity \<lparr>url = ''p1'', longitude = None, latitude = None, height = None, offsetDegrees = None,
           entity = \<lparr>position = None, orientation = None\<rparr>, texture = 0\<rparr>)
   = Some (Quat (Quaternion_fromAxisAngle UNIT_X PI_OVER_TWO))"
  by (simp add: shown_p1_eye test_library_def)

lemma half_turn_values:
  "Quaternion_fromAxisAngle UNIT_X PI_OVER_TWO = \<lparr>qx = sqrt 2 / 2, qy = 0, qz = 0, qw = sqrt 2 / 2\<rparr>"
  "Quaternion_fromAxisAngle UNIT_Y (pi / 2) = \<lparr>qx = 0, qy = sqrt 2 / 2, qz = 0, qw = sqrt 2 / 2\<rparr>"
  by (simp_all add: Quaternion_fromAxisAngle_def UNIT_X_def UNIT_Y_def PI_OVER_TWO_def
      sin_45 cos_45)

lemma resolve_bogus:
  "resolve (global_self test_env) (Some ''Bogus'') (TWEEN_Easing test_env) True = Inr Undefined"
  by (simp add: resolve_def test_env_def)

lemma resolve_quad:
  "resolve (global_self test_env) (Some ''Quadratic.InOut'') (TWEEN_Easing test_env) True
     = Inr (Function ''Quadratic.InOut'')"
  by (simp add: resolve_def test_env_def)

lemma linear_none_test_env: "Easing_Linear_None test_env = Inr (Function ''Linear.None'')"
  by (simp add: Easing_Linear_None_def test_env_def)

section \<open>Field of view\<close>

lemma clamp_between:
  fixes x lo hi :: real
  assumes "lo \<le> hi"
  shows "lo \<le> min (max x lo) hi \<and> min (max x lo) hi \<le> hi"
  using assms by (simp add: min_def max_def)

lemma fuse_fov_bounds:
  assumes "pi / 8 \<le> v" and "v \<le> pi - pi / 8"
  shows "pi / 8 \<le> fuse_fov v w p \<and> fuse_fov v w p \<le> pi - pi / 8"
proof -
  have lohi: "pi / 8 \<le> pi - pi / 8"
    using pi_gt_zero by simp
  note c = clamp_between[OF lohi]
  show ?thesis
  proof (cases p)
    case None
    show ?thesis
    proof (cases w)
      case None
      with \<open>p = None\<close> assms show ?thesis by (simp add: fuse_fov_def)
    next
      case (Some m)
      with \<open>p = None\<close> c show ?thesis by (simp only: fuse_fov_def Let_def option.case)
    qed
  next
    case (Some pm)
    with c show ?thesis by (simp only: fuse_fov_def Let_def option.case)
  qed
qed

lemma update_projections_fov:
  "fov (fst (update_projections lib fr svs)) = fov fr"
  by (induction svs arbitrary: fr) (simp_all add: Let_def)

lemma publish_fov:
  "fov (scratch_frustum (fst (publish lib fS s))) = fov (scratch_frustum s)"
  by (simp add: publish_def Let_def update_projections_fov)

text \<open>
  C4. On every tick that reaches the fusion step (a non-strict tick for which the host
  supplies a sub-view), starting from a field of view of the current view that lies within
  \<open>[pi/8, pi - pi/8]\<close>, the field of view the tick leaves in the frustum is the fused value,
  and it lies within \<open>[pi/8, pi - pi/8]\<close> whatever the wheel and pinch movements are.
\<close>

theorem frame_handler_fov_within_bounds:
  assumes "\<not> strict fS" and "fs_subviews fS \<noteq> []"
    and "view_subviews_fov fS = v # vs"
    and "pi / 8 \<le> v" and "v \<le> pi - pi / 8"
  shows "fov (scratch_frustum (fst (frame_handler lib fS s)))
           = Some (fuse_fov v (wheel fS) (pinch fS))
       \<and> pi / 8 \<le> fuse_fov v (wheel fS) (pinch fS)
       \<and> fuse_fov v (wheel fS) (pinch fS) \<le> pi - pi / 8"
proof -
  obtain sv0 rest where svs: "fs_subviews fS = sv0 # rest"
    using assms(2) by (cases "fs_subviews fS") auto
  have "fov (scratch_frustum (fst (frame_handler lib fS s)))
           = Some (fuse_fov v (wheel fS) (pinch fS))"
    using assms(1,3) svs
    by (auto simp: frame_handler_def Let_def publish_fov split: option.splits sum.splits)
  with fuse_fov_bounds[OF assms(4,5)] show ?thesis by blast
qed

theorem frame_handler_fov_within_bounds_witness:
  "\<not> strict wheel_frame \<and> fs_subviews wheel_frame \<noteq> []
   \<and> view_subviews_fov wheel_frame = [pi / 3]
   \<and> pi / 8 \<le> pi / 3 \<and> pi / 3 \<le> pi - pi / 8
   \<and> fov (scratch_frustum (fst (frame_handler test_library wheel_frame (init_state test_library))))
       = Some (fuse_fov (pi / 3) (wheel wheel_frame) (pinch wheel_frame))
   \<and> pi / 8 \<le> fuse_fov (pi / 3) (wheel wheel_frame) (pinch wheel_frame)
   \<and> fuse_fov (pi / 3) (wheel wheel_frame) (pinch wheel_frame) \<le> pi - pi / 8
   \<and> fuse_fov (pi / 3) (wheel wheel_frame) (pinch wheel_frame) = pi / 8"
proof -
  have h1: "\<not> strict wheel_frame" by (simp add: wheel_frame_def)
  have h2: "fs_subviews wheel_frame \<noteq> []" by (simp add: wheel_frame_def)
  have h3: "view_subviews_fov wheel_frame = [pi / 3]" by (simp add: wheel_frame_def)
  have h4: "pi / 8 \<le> pi / 3" using pi_gt_zero by simp
  have h5: "pi / 3 \<le> pi - pi / 8" using pi_gt_zero by simp
  have pi4: "pi \<le> 4" using pi_less_4 by simp
  have v: "fuse_fov (pi / 3) (wheel wheel_frame) (pinch wheel_frame) = pi / 8"
    using pi_gt_zero pi4 by (simp add: fuse_fov_def wheel_frame_def min_def max_def)
  show ?thesis
    using frame_handler_fov_within_bounds[OF h1 h2 h3 h4 h5] h1 h2 h3 h4 h5 v by simp
qed

section \<open>Registration\<close>

lemma anchor_entity_Inr:
  assumes "anchor_entity lib pano = Inr a"
  shows "(position a \<noteq> None \<longleftrightarrow> longitude pano \<noteq> None)
       \<and> (orientation a \<noteq> None \<longleftrightarrow> longitude pano \<noteq> None)"
  using assms
  by (auto simp: anchor_entity_def defined_def Let_def split: if_splits sum.splits)

text \<open>
  C1. What the load handler does: after a load that returns, looking the url up gives an
  entry whose anchor (position and orientation of the entity) is present exactly when the
  longitude was supplied. The latitude plays no part in the guard, so an input with a
  longitude and no latitude gets an anchor; the claim asks for none there.
\<close>

theorem loadPanorama_anchor_follows_longitude:
  assumes "loadPanorama lib pano s = (s', Inr n)"
  shows "\<exists>p. lookup s' (url pano) = Some p
           \<and> (position (entity p) \<noteq> None \<longleftrightarrow> longitude pano \<noteq> None)
           \<and> (orientation (entity p) \<noteq> None \<longleftrightarrow> longitude pano \<noteq> None)"
proof (cases "anchor_entity lib pano")
  case (Inl e)
  with assms show ?thesis
    by (simp add: loadPanorama_def split: if_splits)
next
  case (Inr a)
  from assms Inr have "lookup s' (url pano) =
      Some \<lparr>url = url pano, longitude = longitude pano, latitude = latitude pano,
            height = height pano, offsetDegrees = offsetDegrees pano,
            entity = a, texture = next_promise s\<rparr>"
    by (auto simp: loadPanorama_def lookup_def Let_def split: if_splits)
  with anchor_entity_Inr[OF Inr] show ?thesis by simp
qed

theorem loadPanorama_anchor_follows_longitude_witness:
  "loadPanorama test_library lon_only (init_state test_library)
     = (fst (loadPanorama test_library lon_only (init_state test_library)), Inr 0)
   \<and> latitude lon_only = None
   \<and> longitude lon_only \<noteq> None
   \<and> (\<exists>p. lookup (fst (loadPanorama test_library lon_only (init_state test_library)))
              (url lon_only) = Some p
           \<and> position (entity p) \<noteq> None
           \<and> orientation (entity p) \<noteq> None)"
proof -
  have h: "loadPanorama test_library lon_only (init_state test_library)
     = (fst (loadPanorama test_library lon_only (init_state test_library)), Inr 0)"
    by (simp add: loadPanorama_def lon_only_def init_state_def anchor_entity_def defined_def
        test_library_def Let_def)
  have l: "latitude lon_only = None" "longitude lon_only \<noteq> None"
    by (simp_all add: lon_only_def)
  show ?thesis
    using loadPanorama_anchor_follows_longitude[OF h] h l by simp
qed

section \<open>Easing names\<close>

lemma start_transition_ok:
  assumes "wf_spheres s"
  shows "snd (start_transition panoIn tr ease s) = Inr ()"
    and "map tw_easing (tweens (fst (start_transition panoIn tr ease s))) = [ease]"
  using assms
  by (auto simp: start_transition_def wf_spheres_def Let_def update_sphere_def update_material_def)

text \<open>
  C2. What \<^verbatim>\<open>showPanorama\<close> does with an easing name that resolves to nothing: with
  \<^verbatim>\<open>TWEEN.Easing.Linear.None\<close> in the table, the default is substituted before the check
  for an unknown easing runs, the call succeeds on a registered url, and the tween it
  starts carries the default easing. The claim asks for an error there.
\<close>

theorem showPanorama_unknown_easing_defaults:
  assumes "resolve (global_self env) (easing tr) (TWEEN_Easing env) True = Inr Undefined"
    and "Easing_Linear_None env = Inr f" and "truthy f"
    and "transition options = Some tr"
    and "show_url options \<noteq> []"
    and "panoramas s (show_url options) = Some p"
    and "wf_spheres s"
  shows "snd (showPanorama env options s) = Inr ()
       \<and> map tw_easing (tweens (fst (showPanorama env options s))) = [f]"
proof -
  have "showPanorama env options s = start_transition p tr f s"
    using assms(1-6) by (simp add: showPanorama_def)
  with start_transition_ok[OF assms(7)] show ?thesis by simp
qed

theorem showPanorama_unknown_easing_defaults_witness:
  "resolve (global_self test_env) (easing \<lparr>easing = Some ''Bogus'', duration = Some 1000\<rparr>)
      (TWEEN_Easing test_env) True = Inr Undefined
   \<and> Easing_Linear_None test_env = Inr (Function ''Linear.None'')
   \<and> truthy (Function ''Linear.None'')
   \<and> transition bogus_show = Some \<lparr>easing = Some ''Bogus'', duration = Some 1000\<rparr>
   \<and> show_url bogus_show \<noteq> []
   \<and> panoramas registered (show_url bogus_show) \<noteq> None
   \<and> wf_spheres registered
   \<and> snd (showPanorama test_env bogus_show registered) = Inr ()
   \<and> map tw_easing (tweens (fst (showPanorama test_env bogus_show registered)))
       = [Function ''Linear.None'']"
proof -
  have h1: "resolve (global_self test_env) (easing \<lparr>easing = Some ''Bogus'', duration = Some 1000\<rparr>)
      (TWEEN_Easing test_env) True = Inr Undefined"
    using resolve_bogus by simp
  have h3: "truthy (Function ''Linear.None'')" by simp
  have h4: "transition bogus_show = Some \<lparr>easing = Some ''Bogus'', duration = Some 1000\<rparr>"
    by (simp add: bogus_show_def)
  have h5: "show_url bogus_show \<noteq> []" by (simp add: bogus_show_def)
  have h6: "panoramas registered (show_url bogus_show) =
     Some \<lparr>url = ''p1'', longitude = None, latitude = None, height = None, offsetDegrees = None,
           entity = \<lparr>position = None, orientation = None\<rparr>, texture = 0\<rparr>"
    using registered_p1 by (simp add: bogus_show_def)
  show ?thesis
    using showPanorama_unknown_easing_defaults[OF h1 linear_none_test_env h3 h4 h5 h6 registered_wf]
      h1 linear_none_test_env h4 h5 h6 registered_wf
    by simp
qed

section \<open>The answer to a load\<close>

text \<open>
  C3. What the load handler returns: the promise is pending after the call and fulfilled
  once the loader delivers the texture. When the fetch fails the loader has no error
  callback to call, the texture promise is never settled, and the answer to the remote
  session stays pending; the claim asks for a rejection there.
\<close>

theorem loadPanorama_reply_settlement:
  assumes "loadPanorama lib pano s = (s', Inr n)"
  shows "reply s' n = Pending
       \<and> reply (loader_finished (length (requests s)) (Loaded t) s') n = Fulfilled ()
       \<and> reply (loader_finished (length (requests s)) Failed s') n = Pending"
  using assms
  by (auto simp: loadPanorama_def Let_def reply_def loader_finished_def settle_def nth_append
      split: if_splits sum.splits)

theorem loadPanorama_reply_settlement_witness:
  "loadPanorama test_library lon_only (init_state test_library)
     = (fst (loadPanorama test_library lon_only (init_state test_library)), Inr 0)
   \<and> reply (loader_finished (length (requests (init_state test_library))) Failed
        (fst (loadPanorama test_library lon_only (init_state test_library)))) 0 = Pending
   \<and> reply (loader_finished (length (requests (init_state test_library))) (Loaded example_texture)
        (fst (loadPanorama test_library lon_only (init_state test_library)))) 0 = Fulfilled ()"
proof -
  have h: "loadPanorama test_library lon_only (init_state test_library)
     = (fst (loadPanorama test_library lon_only (init_state test_library)), Inr 0)"
    by (simp add: loadPanorama_def lon_only_def init_state_def anchor_entity_def defined_def
        test_library_def Let_def)
  show ?thesis
    using loadPanorama_reply_settlement[OF h] h by simp
qed

section \<open>A drag before the first panorama\<close>

text \<open>
  C5. What the listener does on a non-strict tick without device orientation and with a
  drag while no panorama is current: reading the entity of the unset current panorama
  throws, and the tick ends with that error before anything is submitted. The claim asks
  for a tick that completes.
\<close>

theorem drag_before_first_show_aborts:
  assumes "\<not> strict fS" and "deviceUserOrientation fS = None"
    and "left_drag fS = Some d" and "currentPano s = None"
    and "fs_subviews fS \<noteq> []" and "view_subviews_fov fS \<noteq> []"
  shows "snd (frame_handler lib fS s) = Inl TypeError"
  using assms
  by (auto simp: frame_handler_def drag_orientation_def Let_def split: list.splits)

theorem drag_before_first_show_aborts_witness:
  "\<not> strict drag_frame \<and> deviceUserOrientation drag_frame = None
   \<and> left_drag drag_frame = Some \<lparr>startPosition = (0, 0), endPosition = (800, 0)\<rparr>
   \<and> currentPano (init_state test_library) = None
   \<and> fs_subviews drag_frame \<noteq> [] \<and> view_subviews_fov drag_frame \<noteq> []
   \<and> snd (frame_handler test_library drag_frame (init_state test_library)) = Inl TypeError"
proof -
  have h: "\<not> strict drag_frame" "deviceUserOrientation drag_frame = None"
    "left_drag drag_frame = Some \<lparr>startPosition = (0, 0), endPosition = (800, 0)\<rparr>"
    "currentPano (init_state test_library) = None"
    "fs_subviews drag_frame \<noteq> []" "view_subviews_fov drag_frame \<noteq> []"
    by (simp_all add: drag_frame_def init_state_def)
  show ?thesis
    using drag_before_first_show_aborts[OF h] h by simp
qed

section \<open>Showing a panorama\<close>

lemma reduce_path_safe: "\<exists>v. reduce_path True prev ks = Inr v"
proof (induction ks arbitrary: prev)
  case Nil
  show ?case by simp
next
  case (Cons k ks)
  show ?case
  proof (cases prev)
    case Undefined
    with Cons[of Undefined] show ?thesis by simp
  next
    case (Function f)
    with Cons[of Undefined] show ?thesis by simp
  next
    case (Object ps)
    with Cons[of "case map_of ps k of None \<Rightarrow> Undefined | Some v \<Rightarrow> v"] show ?thesis by simp
  qed
qed

lemma resolve_safe: "\<exists>v. resolve self path obj True = Inr v"
  using reduce_path_safe by (simp add: resolve_def split: option.splits)

lemma showPanorama_easing_truthy:
  assumes "Easing_Linear_None env = Inr f" and "truthy f"
  obtains ease where "truthy ease"
    and "showPanorama env options s =
      (if show_url options = [] then (s, Inl ExpectedUrl)
       else case panoramas s (show_url options) of
              None \<Rightarrow> (s, Inl (UnknownPano (show_url options)))
            | Some panoIn \<Rightarrow> start_transition panoIn
                (case transition options of None \<Rightarrow> \<lparr>easing = None, duration = None\<rparr> | Some t \<Rightarrow> t)
                ease s)"
proof -
  let ?tr = "case transition options of None \<Rightarrow> \<lparr>easing = None, duration = None\<rparr> | Some t \<Rightarrow> t"
  obtain r where r: "resolve (global_self env) (easing ?tr) (TWEEN_Easing env) True = Inr r"
    using resolve_safe by blast
  show thesis
  proof (cases "truthy r")
    case True
    with r that[of r] show ?thesis by (simp add: showPanorama_def Let_def)
  next
    case False
    with r assms that[of f] show ?thesis by (simp add: showPanorama_def Let_def)
  qed
qed

text \<open>
  C9. A \<^verbatim>\<open>showPanorama\<close> call that names a url (a missing or empty url is the separate
  failure \<open>ExpectedUrl\<close>) which is not in the registry fails with the unknown-panorama
  error and leaves the whole state as it was: the current panorama, the eye, both sphere
  meshes and the active index included. The easing table is assumed to hold
  \<^verbatim>\<open>Linear.None\<close>, as the library's does.
\<close>

theorem showPanorama_unregistered:
  assumes "show_url options \<noteq> []"
    and "panoramas s (show_url options) = None"
    and "Easing_Linear_None env = Inr f" and "truthy f"
  shows "showPanorama env options s = (s, Inl (UnknownPano (show_url options)))"
proof -
  obtain ease where "showPanorama env options s =
      (if show_url options = [] then (s, Inl ExpectedUrl)
       else case panoramas s (show_url options) of
              None \<Rightarrow> (s, Inl (UnknownPano (show_url options)))
            | Some panoIn \<Rightarrow> start_transition panoIn
                (case transition options of None \<Rightarrow> \<lparr>easing = None, duration = None\<rparr> | Some t \<Rightarrow> t)
                ease s)"
    using showPanorama_easing_truthy[OF assms(3,4)] by blast
  with assms(1,2) show ?thesis by simp
qed

theorem showPanorama_unregistered_witness:
  "show_url unknown_show \<noteq> []
   \<and> panoramas registered (show_url unknown_show) = None
   \<and> Easing_Linear_None test_env = Inr (Function ''Linear.None'')
   \<and> truthy (Function ''Linear.None'')
   \<and> showPanorama test_env unknown_show registered = (registered, Inl (UnknownPano ''nowhere.jpg''))"
proof -
  have h1: "show_url unknown_show \<noteq> []" by (simp add: unknown_show_def)
  have h2: "panoramas registered (show_url unknown_show) = None"
    by (simp add: unknown_show_def eval_defs)
  have h4: "truthy (Function ''Linear.None'')" by simp
  show ?thesis
    using showPanorama_unregistered[OF h1 h2 linear_none_test_env h4] h1 h2 linear_none_test_env
    by (simp add: unknown_show_def)
qed

section \<open>The crossfade\<close>

lemma toggle_neq: "Suc n mod 2 \<noteq> n"
  by presburger

lemma start_transition_facts:
  fixes panoIn tr ease s
  assumes "wf_spheres s"
  defines "r \<equiv> fst (start_transition panoIn tr ease s)"
  shows "snd (start_transition panoIn tr ease s) = Inr ()"
    and "currentSphere r = (currentSphere s + 1) mod 2"
    and "currentSphere r \<noteq> currentSphere s"
    and "wf_spheres r"
    and "currentPano r = Some panoIn"
    and "panoramas r = panoramas s"
    and "tweens r = [\<lparr>tw_object = currentSphere s,
                      tw_from = opacity (material (panoSpheres s ! currentSphere s)),
                      tw_to = 0, tw_duration = duration tr, tw_easing = ease\<rparr>]"
    and "opacity (material (panoSpheres r ! currentSphere r)) = 1"
    and "scale (panoSpheres r ! currentSphere r) = (- 1, 1, 1)"
    and "scale (panoSpheres r ! currentSphere s) = (- 0.9, 0.9, 0.9)"
    and "renderOrder (panoSpheres r ! currentSphere r) = 0"
    and "renderOrder (panoSpheres r ! currentSphere s) = 1"
  using assms(1) toggle_neq[of "currentSphere s"] unfolding r_def
  by (auto simp: start_transition_def wf_spheres_def Let_def update_sphere_def update_material_def
      nth_list_update)

lemma nth_update_sphere:
  "panoSpheres (update_sphere i f s) ! j =
     (if i = j \<and> i < length (panoSpheres s) then f (panoSpheres s ! j) else panoSpheres s ! j)"
proof (cases "i < length (panoSpheres s)")
  case True
  then show ?thesis by (simp add: update_sphere_def nth_list_update)
next
  case False
  then show ?thesis by (simp add: update_sphere_def list_update_beyond)
qed

lemma update_sphere_others:
  "currentSphere (update_sphere i f s) = currentSphere s"
  "currentPano (update_sphere i f s) = currentPano s"
  "panoramas (update_sphere i f s) = panoramas s"
  "tweens (update_sphere i f s) = tweens s"
  "promises (update_sphere i f s) = promises s"
  "then_bind (update_sphere i f s) = then_bind s"
  "length (panoSpheres (update_sphere i f s)) = length (panoSpheres s)"
  by (simp_all add: update_sphere_def)

lemma bind_texture_keeps:
  fixes s i t
  defines "r \<equiv> update_material i (\<lambda>m. m\<lparr>tex_map := Some t, needsUpdate := True\<rparr>) s"
  shows "currentSphere r = currentSphere s"
    and "currentPano r = currentPano s"
    and "panoramas r = panoramas s"
    and "tweens r = tweens s"
    and "promises r = promises s"
    and "length (panoSpheres r) = length (panoSpheres s)"
    and "opacity (material (panoSpheres r ! j)) = opacity (material (panoSpheres s ! j))"
    and "scale (panoSpheres r ! j) = scale (panoSpheres s ! j)"
    and "renderOrder (panoSpheres r ! j) = renderOrder (panoSpheres s ! j)"
  unfolding r_def update_material_def
  by (simp_all add: update_sphere_others nth_update_sphere)

lemma run_then_keeps:
  "currentSphere (run_then cbs s) = currentSphere s
   \<and> currentPano (run_then cbs s) = currentPano s
   \<and> panoramas (run_then cbs s) = panoramas s
   \<and> tweens (run_then cbs s) = tweens s
   \<and> length (panoSpheres (run_then cbs s)) = length (panoSpheres s)
   \<and> opacity (material (panoSpheres (run_then cbs s) ! j)) = opacity (material (panoSpheres s ! j))
   \<and> scale (panoSpheres (run_then cbs s) ! j) = scale (panoSpheres s ! j)
   \<and> renderOrder (panoSpheres (run_then cbs s) ! j) = renderOrder (panoSpheres s ! j)"
proof (induction cbs arbitrary: s)
  case Nil
  show ?case by simp
next
  case (Cons cb cbs)
  obtain p i where cb: "cb = (p, i)" by (cases cb)
  show ?case
  proof (cases "\<exists>t. promises s p = Some (Fulfilled t)")
    case True
    then obtain t where t: "promises s p = Some (Fulfilled t)" by blast
    show ?thesis
      using Cons[of "update_material i (\<lambda>m. m\<lparr>tex_map := Some t, needsUpdate := True\<rparr>) s"]
      by (simp add: cb t bind_texture_keeps)
  next
    case False
    then have "run_then (cb # cbs) s =
        (let s' = run_then cbs s in s'\<lparr>then_bind := (p, i) # then_bind s'\<rparr>)"
      by (auto simp: cb split: option.splits promise.splits)
    with Cons[of s] show ?thesis by (simp add: Let_def)
  qed
qed

lemma microtasks_keeps:
  "currentSphere (microtasks s) = currentSphere s"
  "currentPano (microtasks s) = currentPano s"
  "panoramas (microtasks s) = panoramas s"
  "tweens (microtasks s) = tweens s"
  "length (panoSpheres (microtasks s)) = length (panoSpheres s)"
  "opacity (material (panoSpheres (microtasks s) ! j)) = opacity (material (panoSpheres s ! j))"
  "scale (panoSpheres (microtasks s) ! j) = scale (panoSpheres s ! j)"
  "renderOrder (panoSpheres (microtasks s) ! j) = renderOrder (panoSpheres s ! j)"
  using run_then_keeps[of "then_bind s" "s\<lparr>then_bind := []\<rparr>" j]
  by (simp_all add: microtasks_def)

lemma microtasks_wf: "wf_spheres (microtasks s) = wf_spheres s"
  by (simp add: wf_spheres_def microtasks_keeps)

lemma showPanorama_success:
  assumes "showPanorama env options s = (s', Inr ())"
  shows "\<exists>panoIn ease. panoramas s (show_url options) = Some panoIn
           \<and> start_transition panoIn
                 (case transition options of None \<Rightarrow> \<lparr>easing = None, duration = None\<rparr> | Some t \<Rightarrow> t)
                 ease s = (s', Inr ())"
proof -
  let ?tr = "case transition options of None \<Rightarrow> \<lparr>easing = None, duration = None\<rparr> | Some t \<Rightarrow> t"
  from assms have "\<exists>panoIn ease. panoramas s (show_url options) = Some panoIn
           \<and> start_transition panoIn ?tr ease s = (s', Inr ())"
    unfolding showPanorama_def Let_def
    by (auto split: sum.splits if_splits option.splits)
  then show ?thesis .
qed

lemma showPanorama_registered:
  assumes "wf_spheres s" and "show_url options \<noteq> []"
    and "panoramas s (show_url options) = Some p"
    and "Easing_Linear_None env = Inr f" and "truthy f"
  shows "snd (showPanorama env options s) = Inr ()"
    and "panoramas (fst (showPanorama env options s)) = panoramas s"
    and "wf_spheres (fst (showPanorama env options s))"
    and "currentPano (fst (showPanorama env options s)) = Some p"
    and "currentSphere (fst (showPanorama env options s)) = (currentSphere s + 1) mod 2"
proof -
  obtain ease where "showPanorama env options s = start_transition p
                (case transition options of None \<Rightarrow> \<lparr>easing = None, duration = None\<rparr> | Some t \<Rightarrow> t)
                ease s"
    using showPanorama_easing_truthy[OF assms(4,5), of options s] assms(2,3) by auto
  then show "snd (showPanorama env options s) = Inr ()"
    and "panoramas (fst (showPanorama env options s)) = panoramas s"
    and "wf_spheres (fst (showPanorama env options s))"
    and "currentPano (fst (showPanorama env options s)) = Some p"
    and "currentSphere (fst (showPanorama env options s)) = (currentSphere s + 1) mod 2"
    using start_transition_facts[OF assms(1)] by simp_all
qed

text \<open>
  C10. From a state with both sphere slots, a successful show of one panorama followed
  (after the pending promise callbacks) by a successful show of a second: the active index
  toggles; the slot that was incoming for the first panorama is the outgoing one, and the
  one tween left animates its material's opacity from 1 to 0 over the requested duration;
  the incoming slot has opacity 1 and scale \<open>(-1, 1, 1)\<close>, the outgoing one scale
  \<open>(-0.9, 0.9, 0.9)\<close>; the incoming sphere has the lower render order, so it is drawn first.
\<close>

theorem show_twice_crossfade:
  assumes "wf_spheres s"
    and "showPanorama env o1 s = (s1, Inr ())"
    and "showPanorama env o2 (microtasks s1) = (s2, Inr ())"
    and "transition o2 = Some tr"
  shows "currentPano s1 = panoramas s (show_url o1)
       \<and> currentPano s2 = panoramas s1 (show_url o2)
       \<and> currentSphere s2 = (currentSphere s1 + 1) mod 2
       \<and> currentSphere s2 \<noteq> currentSphere s1
       \<and> currentSphere s1 < 2 \<and> currentSphere s2 < 2
       \<and> map tw_object (tweens s2) = [currentSphere s1]
       \<and> map tw_from (tweens s2) = [1]
       \<and> map tw_to (tweens s2) = [0]
       \<and> map tw_duration (tweens s2) = [duration tr]
       \<and> opacity (material (panoSpheres s2 ! currentSphere s2)) = 1
       \<and> scale (panoSpheres s2 ! currentSphere s2) = (- 1, 1, 1)
       \<and> scale (panoSpheres s2 ! currentSphere s1) = (- 0.9, 0.9, 0.9)
       \<and> renderOrder (panoSpheres s2 ! currentSphere s2)
           < renderOrder (panoSpheres s2 ! currentSphere s1)"
proof -
  obtain e1 ease1 where e1: "panoramas s (show_url o1) = Some e1"
    and s1: "s1 = fst (start_transition e1
           (case transition o1 of None \<Rightarrow> \<lparr>easing = None, duration = None\<rparr> | Some t \<Rightarrow> t)
           ease1 s)"
    using showPanorama_success[OF assms(2)] by (metis fst_conv)
  note f1 = start_transition_facts[OF assms(1),
      of e1 "case transition o1 of None \<Rightarrow> \<lparr>easing = None, duration = None\<rparr> | Some t \<Rightarrow> t"
      ease1, folded s1]
  let ?m = "microtasks s1"
  have wfm: "wf_spheres ?m" using f1(4) by (simp add: microtasks_wf)
  obtain e2 ease2 where e2: "panoramas ?m (show_url o2) = Some e2"
    and s2: "s2 = fst (start_transition e2 tr ease2 ?m)"
    using showPanorama_success[OF assms(3)] assms(4) by (metis fst_conv option.simps(5))
  note f2 = start_transition_facts[OF wfm, of e2 tr ease2, folded s2]
  have cs: "currentSphere ?m = currentSphere s1" by (simp add: microtasks_keeps)
  have op: "opacity (material (panoSpheres ?m ! currentSphere s1)) = 1"
    using f1(8) by (simp add: microtasks_keeps)
  have lt: "currentSphere s1 < 2" "currentSphere s2 < 2"
    using f1(4) f2(4) by (simp_all add: wf_spheres_def)
  show ?thesis
    using f1(5) e1 f2(5) e2 f2(2,3,7,8,9,10,11,12) cs op lt
    by (simp add: microtasks_keeps)
qed

theorem show_twice_crossfade_witness:
  "wf_spheres registered
   \<and> showPanorama test_env show_p1 registered = (shown_p1, Inr ())
   \<and> showPanorama test_env show_p2 (microtasks shown_p1) = (shown_p2, Inr ())
   \<and> transition show_p2 = Some \<lparr>easing = Some ''Quadratic.InOut'', duration = Some 1000\<rparr>
   \<and> currentSphere shown_p1 = 1 \<and> currentSphere shown_p2 = 0
   \<and> map tw_object (tweens shown_p2) = [1]
   \<and> map tw_from (tweens shown_p2) = [1]
   \<and> map tw_to (tweens shown_p2) = [0]
   \<and> map tw_duration (tweens shown_p2) = [Some 1000]
   \<and> opacity (material (panoSpheres shown_p2 ! 0)) = 1
   \<and> scale (panoSpheres shown_p2 ! 0) = (- 1, 1, 1)
   \<and> scale (panoSpheres shown_p2 ! 1) = (- 0.9, 0.9, 0.9)
   \<and> renderOrder (panoSpheres shown_p2 ! 0) < renderOrder (panoSpheres shown_p2 ! 1)"
proof -
  have t: "truthy (Function ''Linear.None'')" by simp
  have u1: "show_url show_p1 \<noteq> []" and u2: "show_url show_p2 \<noteq> []"
    by (simp_all add: show_p1_def show_p2_def)
  have r1: "panoramas registered (show_url show_p1) =
     Some \<lparr>url = ''p1'', longitude = None, latitude = None, height = None, offsetDegrees = None,
           entity = \<lparr>position = None, orientation = None\<rparr>, texture = 0\<rparr>"
    using registered_p1 by (simp add: show_p1_def)
  note a = showPanorama_registered[OF registered_wf u1 r1 linear_none_test_env t, folded shown_p1_def]
  have h2: "showPanorama test_env show_p1 registered = (shown_p1, Inr ())"
    using a(1) by (simp add: shown_p1_def prod_eq_iff)
  have wfm: "wf_spheres (microtasks shown_p1)"
    using a(3) by (simp add: microtasks_wf)
  have r2: "panoramas (microtasks shown_p1) (show_url show_p2) =
     Some \<lparr>url = ''p2'', longitude = Some 10, latitude = Some 20, height = None,
           offsetDegrees = Some 90,
           entity = \<lparr>position = Some ((10, 20, 0), FIXED), orientation = Some IDENTITY\<rparr>,
           texture = 1\<rparr>"
    using registered_p2 a(2) by (simp add: show_p2_def microtasks_keeps)
  note b = showPanorama_registered[OF wfm u2 r2 linear_none_test_env t, folded shown_p2_def]
  have h3: "showPanorama test_env show_p2 (microtasks shown_p1) = (shown_p2, Inr ())"
    using b(1) by (simp add: shown_p2_def prod_eq_iff)
  have h4: "transition show_p2 = Some \<lparr>easing = Some ''Quadratic.InOut'', duration = Some 1000\<rparr>"
    by (simp add: show_p2_def)
  have c1: "currentSphere shown_p1 = 1"
    using a(5) registered_currentSphere by simp
  have c2: "currentSphere shown_p2 = 0"
    using b(5) c1 by (simp add: microtasks_keeps)
  show ?thesis
    using show_twice_crossfade[OF registered_wf h2 h3 h4] registered_wf h2 h3 h4 c1 c2
    by simp
qed

section \<open>The pointer invariant\<close>

lemma loadPanorama_registry:
  "panoramas (fst (loadPanorama lib pano s)) = panoramas s
   \<or> (\<exists>e. panoramas (fst (loadPanorama lib pano s)) = (panoramas s)(url pano \<mapsto> e) \<and> url e = url pano)"
  by (auto simp: loadPanorama_def Let_def split: sum.splits)

lemma loadPanorama_current: "currentPano (fst (loadPanorama lib pano s)) = currentPano s"
  by (auto simp: loadPanorama_def Let_def split: sum.splits)

lemma update_material_others:
  "currentPano (update_material i g s) = currentPano s"
  "panoramas (update_material i g s) = panoramas s"
  by (simp_all add: update_material_def update_sphere_others)

lemma start_transition_registry:
  "currentPano (fst (start_transition p tr ease s)) = Some p"
  "panoramas (fst (start_transition p tr ease s)) = panoramas s"
  by (simp_all add: start_transition_def Let_def update_material_others update_sphere_others)

lemma showPanorama_shape:
  "(\<exists>e. showPanorama env options s = (s, Inl e))
   \<or> (\<exists>p tr ease. panoramas s (show_url options) = Some p
          \<and> showPanorama env options s = start_transition p tr ease s)"
  unfolding showPanorama_def Let_def
  by (auto split: sum.splits option.splits)

lemma showPanorama_cases:
  "fst (showPanorama env options s) = s
   \<or> (\<exists>p. panoramas s (show_url options) = Some p
          \<and> currentPano (fst (showPanorama env options s)) = Some p
          \<and> panoramas (fst (showPanorama env options s)) = panoramas s)"
  using showPanorama_shape[of env options s]
  by (auto simp: start_transition_registry)

lemma microtasks_inv:
  "keyed_by_url (microtasks s) = keyed_by_url s"
  "pointer_in_registry (microtasks s) = pointer_in_registry s"
  by (simp_all add: keyed_by_url_def pointer_in_registry_def microtasks_keeps
      split: option.splits)

lemma pointer_in_registryI:
  assumes "\<And>p. currentPano s = Some p \<Longrightarrow> panoramas s (url p) = Some p"
  shows "pointer_in_registry s"
  using assms by (simp add: pointer_in_registry_def split: option.splits)

lemma pointer_in_registryD:
  assumes "pointer_in_registry s" and "currentPano s = Some p"
  shows "panoramas s (url p) = Some p"
  using assms by (simp add: pointer_in_registry_def)

lemma exec_load_inv:
  assumes "keyed_by_url s" and "pointer_in_registry s"
    and "current_url s \<noteq> Some (url pano)"
  shows "keyed_by_url (exec lib env (LoadPanorama pano) s)
       \<and> pointer_in_registry (exec lib env (LoadPanorama pano) s)"
proof -
  define s' where "s' = fst (loadPanorama lib pano s)"
  have cur: "currentPano s' = currentPano s"
    unfolding s'_def by (rule loadPanorama_current)
  have reg: "panoramas s' = panoramas s
      \<or> (\<exists>e. panoramas s' = (panoramas s)(url pano \<mapsto> e) \<and> url e = url pano)"
    unfolding s'_def by (rule loadPanorama_registry)
  have k: "keyed_by_url s'"
    using reg assms(1) unfolding keyed_by_url_def by (auto split: if_splits)
  have "pointer_in_registry s'"
  proof (rule pointer_in_registryI)
    fix p assume "currentPano s' = Some p"
    then have p: "currentPano s = Some p" using cur by simp
    then have old: "panoramas s (url p) = Some p"
      using assms(2) by (rule pointer_in_registryD[rotated])
    from p assms(3) have ne: "url p \<noteq> url pano" by (simp add: current_url_def)
    from reg show "panoramas s' (url p) = Some p"
    proof
      assume "panoramas s' = panoramas s"
      with old show ?thesis by simp
    next
      assume "\<exists>e. panoramas s' = (panoramas s)(url pano \<mapsto> e) \<and> url e = url pano"
      then obtain e where "panoramas s' = (panoramas s)(url pano \<mapsto> e)" by blast
      with old ne show ?thesis by simp
    qed
  qed
  with k show ?thesis
    by (simp add: microtasks_inv s'_def)
qed

lemma exec_delete_inv:
  assumes "keyed_by_url s" and "pointer_in_registry s"
    and "current_url s \<noteq> Some u"
  shows "keyed_by_url (exec lib env (DeletePanorama u) s)
       \<and> pointer_in_registry (exec lib env (DeletePanorama u) s)"
proof -
  have k: "keyed_by_url (deletePanorama u s)"
    using assms(1) by (simp add: keyed_by_url_def deletePanorama_def)
  have "pointer_in_registry (deletePanorama u s)"
  proof (cases "currentPano s")
    case None
    then show ?thesis by (simp add: pointer_in_registry_def deletePanorama_def)
  next
    case (Some p)
    with assms(3) have "url p \<noteq> u" by (simp add: current_url_def)
    with Some assms(2) show ?thesis by (simp add: pointer_in_registry_def deletePanorama_def)
  qed
  with k show ?thesis
    by (simp add: microtasks_inv)
qed

lemma exec_show_inv:
  assumes "keyed_by_url s" and "pointer_in_registry s"
  shows "keyed_by_url (exec lib env (ShowPanorama options) s)
       \<and> pointer_in_registry (exec lib env (ShowPanorama options) s)"
proof -
  let ?s = "fst (showPanorama env options s)"
  from showPanorama_cases[of env options s]
  have "keyed_by_url ?s \<and> pointer_in_registry ?s"
  proof
    assume "?s = s"
    with assms show ?thesis by simp
  next
    assume "\<exists>p. panoramas s (show_url options) = Some p \<and> currentPano ?s = Some p
                \<and> panoramas ?s = panoramas s"
    then obtain p where p: "panoramas s (show_url options) = Some p" "currentPano ?s = Some p"
        "panoramas ?s = panoramas s"
      by blast
    from assms(1) p(1) have "url p = show_url options" by (simp add: keyed_by_url_def)
    with p assms(1) show ?thesis by (simp add: keyed_by_url_def pointer_in_registry_def)
  qed
  then show ?thesis
    by (simp add: microtasks_inv)
qed

lemma exec_inv:
  assumes "keyed_by_url s" and "pointer_in_registry s"
    and "case c of DeletePanorama u \<Rightarrow> current_url s \<noteq> Some u | _ \<Rightarrow> True"
    and "case c of LoadPanorama pano \<Rightarrow> current_url s \<noteq> Some (url pano) | _ \<Rightarrow> True"
  shows "keyed_by_url (exec lib env c s) \<and> pointer_in_registry (exec lib env c s)"
proof (cases c)
  case (LoadPanorama pano)
  with assms exec_load_inv[of s pano lib env] show ?thesis by simp
next
  case (DeletePanorama u)
  with assms exec_delete_inv[of s u lib env] show ?thesis by simp
next
  case (ShowPanorama options)
  with assms exec_show_inv[of s lib env options] show ?thesis by simp
qed

lemma run_inv:
  assumes "keyed_by_url s" and "pointer_in_registry s"
    and "never_deletes_current lib env cs s" and "never_reloads_current lib env cs s"
  shows "keyed_by_url (run lib env cs s) \<and> pointer_in_registry (run lib env cs s)"
  using assms
proof (induction cs arbitrary: s)
  case Nil
  then show ?case by simp
next
  case (Cons c cs)
  from Cons.prems have "keyed_by_url (exec lib env c s) \<and> pointer_in_registry (exec lib env c s)"
    by (intro exec_inv) simp_all
  with Cons.IH[of "exec lib env c s"] Cons.prems show ?case by simp
qed

lemma init_inv: "keyed_by_url (init_state lib)" "pointer_in_registry (init_state lib)"
  by (simp_all add: keyed_by_url_def pointer_in_registry_def init_state_def)

text \<open>
  C6, as the code has it. After every sequence of load, delete and show commands, run from
  the initial state, that never deletes and never loads again the url of the panorama
  current at that moment, the current-panorama pointer, when set, is the entry the
  registry holds under its url.
\<close>

theorem pointer_in_registry_without_reload:
  assumes "never_deletes_current lib env cs (init_state lib)"
    and "never_reloads_current lib env cs (init_state lib)"
  shows "pointer_in_registry (run lib env cs (init_state lib))"
  using run_inv[OF init_inv assms] by simp

text \<open>
  The witness sequence loads and shows \<open>p1\<close>, then loads and deletes \<open>p2\<close>.
\<close>

theorem pointer_in_registry_without_reload_witness:
  "never_deletes_current test_library test_env other_commands (init_state test_library)
   \<and> never_reloads_current test_library test_env other_commands (init_state test_library)
   \<and> currentPano (run test_library test_env other_commands (init_state test_library)) \<noteq> None
   \<and> pointer_in_registry (run test_library test_env other_commands (init_state test_library))"
  using pointer_in_registry_without_reload[OF other_never_deletes other_never_reloads]
    other_never_deletes other_never_reloads other_current
  by simp

text \<open>
  C6 as stated fails when the current url is loaded again: the load stores a new entry and
  the pointer keeps the one it had. Here \<open>p1\<close> is loaded, shown, and loaded again with a
  geo-anchor; no command deletes anything.
\<close>

theorem reload_current_url_counterexample:
  "never_deletes_current test_library test_env reload_commands (init_state test_library)
   \<and> currentPano (run test_library test_env reload_commands (init_state test_library)) \<noteq> None
   \<and> \<not> pointer_in_registry (run test_library test_env reload_commands (init_state test_library))"
  using reload_never_deletes
  by (simp add: pointer_in_registry_def reload_current reload_registry)

section \<open>The drag\<close>

lemma publish_eye: "virtualEye (fst (publish lib fS s)) = virtualEye s"
  by (simp add: publish_def Let_def)

lemma frame_handler_drag_orientation:
  assumes "\<not> strict fS" and "deviceUserOrientation fS = None"
    and "left_drag fS = Some d"
    and "currentPano s = Some pano"
    and "fs_subviews fS \<noteq> []"
    and "view_subviews_fov fS = v # vs"
    and "view_viewport_width fS \<noteq> 0"
    and "getEntityOrientationInReferenceFrame lib (virtualEye s) (time fS) (entity pano)
           = Some (Quat c)"
  shows "eye_orientation (virtualEye (fst (frame_handler lib fS s))) =
           Quat (multiply lib c
             (fromAxisAngle lib UNIT_Y
               (fuse_fov v (wheel fS) (pinch fS)
                 * ((fst (endPosition d) - fst (startPosition d)) / view_viewport_width fS))))"
proof -
  obtain sv0 rest where svs: "fs_subviews fS = sv0 # rest"
    using assms(5) by (cases "fs_subviews fS") auto
  show ?thesis
    using assms(1-4,6-8) svs
    by (simp add: frame_handler_def drag_orientation_def Let_def js_div_def publish_eye)
qed

lemma fuse_fov_idle: "fuse_fov v None None = v"
  by (simp add: fuse_fov_def)

lemma drag_frame_result:
  "eye_orientation (virtualEye (fst (frame_handler test_library drag_frame shown_p1))) =
     Quat (Quaternion_multiply (Quaternion_fromAxisAngle UNIT_X PI_OVER_TWO)
            (Quaternion_fromAxisAngle UNIT_Y (pi / 2)))"
proof -
  have m: "multiply test_library = Quaternion_multiply"
    and a: "fromAxisAngle test_library = Quaternion_fromAxisAngle"
    by (simp_all add: test_library_def)
  show ?thesis
    using frame_handler_drag_orientation[OF drag_frame_facts(1,2,3) shown_p1_current
        drag_frame_facts(4,5,6) shown_p1_orientation_in_frame]
    by (simp add: drag_frame_facts fuse_fov_idle m a)
qed

lemma products_differ:
  "Quaternion_multiply (Quaternion_fromAxisAngle UNIT_X PI_OVER_TWO)
       (Quaternion_fromAxisAngle UNIT_Y (pi / 2))
   \<noteq> Quaternion_multiply (Quaternion_fromAxisAngle UNIT_Y (pi / 2))
       (Quaternion_fromAxisAngle UNIT_X PI_OVER_TWO)"
proof
  assume eq: "Quaternion_multiply (Quaternion_fromAxisAngle UNIT_X PI_OVER_TWO)
       (Quaternion_fromAxisAngle UNIT_Y (pi / 2))
   = Quaternion_multiply (Quaternion_fromAxisAngle UNIT_Y (pi / 2))
       (Quaternion_fromAxisAngle UNIT_X PI_OVER_TWO)"
  have "qz (Quaternion_multiply (Quaternion_fromAxisAngle UNIT_X PI_OVER_TWO)
       (Quaternion_fromAxisAngle UNIT_Y (pi / 2))) = 1 / 2"
    by (simp add: half_turn_values Quaternion_multiply_def)
  moreover have "qz (Quaternion_multiply (Quaternion_fromAxisAngle UNIT_Y (pi / 2))
       (Quaternion_fromAxisAngle UNIT_X PI_OVER_TWO)) = - (1 / 2)"
    by (simp add: half_turn_values Quaternion_multiply_def)
  ultimately show False using eq by simp
qed

text \<open>
  C7, as the code has it. On a non-strict tick without device orientation and with a drag,
  once a panorama is current and the eye has an orientation in the frame of its entity
  (and the viewport width is not zero), the new eye orientation is the current orientation
  multiplied on the right by the yaw of angle \<open>fov * (dragDeltaX / viewportWidth)\<close>:
  \<open>result = currentOrientation * yaw\<close>.
\<close>

theorem drag_right_multiplies_yaw:
  assumes "\<not> strict fS" and "deviceUserOrientation fS = None"
    and "left_drag fS = Some d"
    and "currentPano s = Some pano"
    and "fs_subviews fS \<noteq> []"
    and "view_subviews_fov fS = v # vs"
    and "view_viewport_width fS \<noteq> 0"
    and "getEntityOrientationInReferenceFrame lib (virtualEye s) (time fS) (entity pano)
           = Some (Quat c)"
  shows "eye_orientation (virtualEye (fst (frame_handler lib fS s))) =
           Quat (multiply lib c
             (fromAxisAngle lib UNIT_Y
               (fuse_fov v (wheel fS) (pinch fS)
                 * ((fst (endPosition d) - fst (startPosition d)) / view_viewport_width fS))))"
  using assms by (rule frame_handler_drag_orientation)

theorem drag_right_multiplies_yaw_witness:
  "\<not> strict drag_frame \<and> deviceUserOrientation drag_frame = None
   \<and> left_drag drag_frame = Some \<lparr>startPosition = (0, 0), endPosition = (800, 0)\<rparr>
   \<and> currentPano shown_p1 \<noteq> None
   \<and> fs_subviews drag_frame \<noteq> []
   \<and> view_subviews_fov drag_frame = [pi / 2]
   \<and> view_viewport_width drag_frame \<noteq> 0
   \<and> getEntityOrientationInReferenceFrame test_library (virtualEye shown_p1) (time drag_frame)
        (entity \<lparr>url = ''p1'', longitude = None, latitude = None, height = None,
                 offsetDegrees = None,
                 entity = \<lparr>position = None, orientation = None\<rparr>, texture = 0\<rparr>)
       = Some (Quat (Quaternion_fromAxisAngle UNIT_X PI_OVER_TWO))
   \<and> eye_orientation (virtualEye (fst (frame_handler test_library drag_frame shown_p1)))
       = Quat (Quaternion_multiply (Quaternion_fromAxisAngle UNIT_X PI_OVER_TWO)
                (Quaternion_fromAxisAngle UNIT_Y (pi / 2)))"
proof -
  have m: "multiply test_library = Quaternion_multiply"
    and a: "fromAxisAngle test_library = Quaternion_fromAxisAngle"
    by (simp_all add: test_library_def)
  show ?thesis
    using drag_right_multiplies_yaw[OF drag_frame_facts(1,2,3) shown_p1_current
        drag_frame_facts(4,5,6) shown_p1_orientation_in_frame]
      drag_frame_facts shown_p1_current shown_p1_orientation_in_frame
    by (simp add: fuse_fov_idle m a)
qed

text \<open>
  C7 as stated fails: with the eye at its initial orientation (a quarter turn about X) and
  a drag across the viewport at a field of view of \<open>pi/2\<close>, the handler's result is not the
  yaw multiplied from the left.
\<close>

theorem drag_left_multiply_counterexample:
  "\<not> strict drag_frame \<and> deviceUserOrientation drag_frame = None
   \<and> left_drag drag_frame = Some \<lparr>startPosition = (0, 0), endPosition = (800, 0)\<rparr>
   \<and> view_subviews_fov drag_frame = [pi / 2]
   \<and> view_viewport_width drag_frame = 800
   \<and> getEntityOrientationInReferenceFrame test_library (virtualEye shown_p1) (time drag_frame)
        (entity \<lparr>url = ''p1'', longitude = None, latitude = None, height = None,
                 offsetDegrees = None,
                 entity = \<lparr>position = None, orientation = None\<rparr>, texture = 0\<rparr>)
       = Some (Quat (Quaternion_fromAxisAngle UNIT_X PI_OVER_TWO))
   \<and> eye_orientation (virtualEye (fst (frame_handler test_library drag_frame shown_p1)))
       \<noteq> Quat (yaw_left_multiplied test_library (pi / 2) (800 - 0) 800
                 (Quaternion_fromAxisAngle UNIT_X PI_OVER_TWO))"
proof -
  have "yaw_left_multiplied test_library (pi / 2) (800 - 0) 800
                 (Quaternion_fromAxisAngle UNIT_X PI_OVER_TWO)
        = Quaternion_multiply (Quaternion_fromAxisAngle UNIT_Y (pi / 2))
            (Quaternion_fromAxisAngle UNIT_X PI_OVER_TWO)"
    by (simp add: yaw_left_multiplied_def test_library_def)
  with products_differ drag_frame_result drag_frame_facts shown_p1_orientation_in_frame
  show ?thesis by simp
qed

section \<open>The published projections\<close>

lemma update_projections_snd:
  "snd (update_projections lib fr svs) =
     map (\<lambda>sv. sv\<lparr>projectionMatrix :=
            frustum_projectionMatrix lib (fr\<lparr>aspectRatio := Some (viewport_aspect (sv_viewport sv))\<rparr>)\<rparr>) svs"
  by (induction svs arbitrary: fr) (simp_all add: Let_def)

lemma publish_projections:
  "submitted_projections (snd (publish lib fS s)) =
     Some (map (\<lambda>sv. frustum_projectionMatrix lib
             ((scratch_frustum s)\<lparr>aspectRatio := Some (viewport_aspect (sv_viewport sv))\<rparr>))
           (fs_subviews fS))"
  by (simp add: publish_def Let_def submitted_projections_def submit_def update_projections_snd
      comp_def)

lemma frame_handler_shape:
  assumes "\<not> strict fS" and "fs_subviews fS = sv0 # rest" and "view_subviews_fov fS = v # vs"
  shows "(\<exists>e. snd (frame_handler lib fS s) = Inl e)
       \<or> (\<exists>s3. frame_handler lib fS s = publish lib fS s3
              \<and> scratch_frustum s3 =
                  (decomposePerspectiveProjectionMatrix lib (projectionMatrix sv0)
                     (scratch_frustum s))\<lparr>fov := Some (fuse_fov v (wheel fS) (pinch fS))\<rparr>)"
  using assms
  by (auto simp: frame_handler_def Let_def split: option.splits sum.splits)

lemma frame_handler_projections:
  assumes "\<not> strict fS"
    and "snd (frame_handler lib fS s) = Inr out"
    and "view_subviews_fov fS = v # vs"
    and "fs_subviews fS = sv0 # rest"
  shows "submitted_projections (snd (frame_handler lib fS s)) =
     Some (map (\<lambda>sv. frustum_projectionMatrix lib
             ((decomposePerspectiveProjectionMatrix lib (projectionMatrix sv0)
                 (scratch_frustum s))
                \<lparr>fov := Some (fuse_fov v (wheel fS) (pinch fS)),
                 aspectRatio := Some (viewport_aspect (sv_viewport sv))\<rparr>))
           (fs_subviews fS))"
proof -
  note Cons = assms(4)
  from frame_handler_shape[OF assms(1) Cons assms(3), of lib s] assms(2)
  obtain s3 where s3: "frame_handler lib fS s = publish lib fS s3"
    and fr: "scratch_frustum s3 =
                  (decomposePerspectiveProjectionMatrix lib (projectionMatrix sv0)
                     (scratch_frustum s))\<lparr>fov := Some (fuse_fov v (wheel fS) (pinch fS))\<rparr>"
    by auto
  show ?thesis
    unfolding s3 publish_projections fr using Cons by simp
qed

lemma stereo_frame_facts:
  "\<not> strict stereo_frame"
  "view_subviews_fov stereo_frame = [pi / 3, pi / 3]"
  "wheel stereo_frame = None" "pinch stereo_frame = None"
  "fs_subviews stereo_frame =
        [\<lparr>sv_viewport = \<lparr>vp_x = 0, vp_y = 0, vp_width = 400, vp_height = 600\<rparr>,
          projectionMatrix = left_projection\<rparr>,
         \<lparr>sv_viewport = \<lparr>vp_x = 400, vp_y = 0, vp_width = 400, vp_height = 600\<rparr>,
          projectionMatrix = right_projection\<rparr>]"
  by (simp_all add: stereo_frame_def)

lemma stereo_completes:
  "snd (frame_handler test_library stereo_frame (init_state test_library)) =
     Inr (submit stereo_frame
            (snd (update_projections test_library (left_projection\<lparr>fov := Some (pi / 3)\<rparr>)
                    (fs_subviews stereo_frame)))
            (init_state test_library))"
  by (simp add: frame_handler_def publish_def submit_def Let_def stereo_frame_def fuse_fov_def
      test_library_def init_state_def)

lemma stereo_aspect:
  "viewport_aspect \<lparr>vp_x = 0, vp_y = 0, vp_width = 400, vp_height = 600\<rparr> = 2 / 3"
  "viewport_aspect \<lparr>vp_x = 400, vp_y = 0, vp_width = 400, vp_height = 600\<rparr> = 2 / 3"
  by (simp_all add: viewport_aspect_def js_div_def)

lemma stereo_result:
  "submitted_projections (snd (frame_handler test_library stereo_frame (init_state test_library)))
     = Some [left_projection, left_projection]"
proof -
  have "submitted_projections (snd (frame_handler test_library stereo_frame (init_state test_library)))
     = Some (map (\<lambda>sv. frustum_projectionMatrix test_library
             ((decomposePerspectiveProjectionMatrix test_library
                 (projectionMatrix \<lparr>sv_viewport = \<lparr>vp_x = 0, vp_y = 0, vp_width = 400, vp_height = 600\<rparr>,
                     projectionMatrix = left_projection\<rparr>)
                 (scratch_frustum (init_state test_library)))
                \<lparr>fov := Some (fuse_fov (pi / 3) (wheel stereo_frame) (pinch stereo_frame)),
                 aspectRatio := Some (viewport_aspect (sv_viewport sv))\<rparr>))
           (fs_subviews stereo_frame))"
    by (rule frame_handler_projections[OF stereo_frame_facts(1) stereo_completes
          stereo_frame_facts(2) stereo_frame_facts(5)])
  then show ?thesis
    by (simp add: stereo_frame_facts stereo_aspect fuse_fov_def test_library_def
        left_projection_def)
qed

lemma stereo_own:
  "map (own_projection test_library (scratch_frustum (init_state test_library))
          (fuse_fov (pi / 3) (wheel stereo_frame) (pinch stereo_frame)))
       (fs_subviews stereo_frame)
     = [left_projection, right_projection]"
  by (simp add: own_projection_def stereo_frame_facts stereo_aspect fuse_fov_def test_library_def
      left_projection_def right_projection_def)

lemma left_right_differ: "left_projection \<noteq> right_projection"
proof
  assume "left_projection = right_projection"
  then have "xOffset left_projection = xOffset right_projection" by simp
  then show False by (simp add: left_projection_def right_projection_def)
qed

lemma viewport_aspect_eq:
  "viewport_aspect vp =
     (if vp_height vp = 0 \<or> vp_width vp = 0 then 1 else vp_width vp / vp_height vp)"
  by (simp add: viewport_aspect_def js_div_def Let_def)

text \<open>
  C8, as the code has it. On every non-strict tick that submits, the projection matrix
  published for each sub-view is the projection of one frustum: the decomposition of the
  first sub-view's host-provided projection, with the field of view overridden by the
  fused value and the aspect ratio recomputed from that sub-view's own viewport, which is
  \<open>1\<close> when the viewport's ratio is not finite or is zero.
\<close>

theorem projections_from_first_subview:
  assumes "\<not> strict fS"
    and "snd (frame_handler lib fS s) = Inr out"
    and "view_subviews_fov fS = v # vs"
    and "fs_subviews fS = sv0 # rest"
  shows "submitted_projections (snd (frame_handler lib fS s)) =
     Some (map (\<lambda>sv. frustum_projectionMatrix lib
             ((decomposePerspectiveProjectionMatrix lib (projectionMatrix sv0)
                 (scratch_frustum s))
                \<lparr>fov := Some (fuse_fov v (wheel fS) (pinch fS)),
                 aspectRatio := Some (viewport_aspect (sv_viewport sv))\<rparr>))
           (fs_subviews fS))
     \<and> (\<forall>vp. viewport_aspect vp =
           (if vp_height vp = 0 \<or> vp_width vp = 0 then 1 else vp_width vp / vp_height vp))"
  using frame_handler_projections[OF assms] viewport_aspect_eq by blast

theorem projections_from_first_subview_witness:
  "\<not> strict stereo_frame
   \<and> snd (frame_handler test_library stereo_frame (init_state test_library)) =
       Inr (submit stereo_frame
            (snd (update_projections test_library (left_projection\<lparr>fov := Some (pi / 3)\<rparr>)
                    (fs_subviews stereo_frame)))
            (init_state test_library))
   \<and> view_subviews_fov stereo_frame = [pi / 3, pi / 3]
   \<and> fs_subviews stereo_frame =
        [\<lparr>sv_viewport = \<lparr>vp_x = 0, vp_y = 0, vp_width = 400, vp_height = 600\<rparr>,
          projectionMatrix = left_projection\<rparr>,
         \<lparr>sv_viewport = \<lparr>vp_x = 400, vp_y = 0, vp_width = 400, vp_height = 600\<rparr>,
          projectionMatrix = right_projection\<rparr>]
   \<and> submitted_projections
        (snd (frame_handler test_library stereo_frame (init_state test_library)))
       = Some [left_projection, left_projection]"
proof -
  have "submitted_projections
        (snd (frame_handler test_library stereo_frame (init_state test_library)))
       = Some [left_projection, left_projection]"
    using projections_from_first_subview[OF stereo_frame_facts(1) stereo_completes
          stereo_frame_facts(2) stereo_frame_facts(5), of ]
    by (simp add: stereo_frame_facts stereo_aspect fuse_fov_def test_library_def
        left_projection_def)
  with stereo_frame_facts stereo_completes show ?thesis by simp
qed

text \<open>
  C8 as stated fails on a stereo tick: the second sub-view is published with the
  decomposition of the first sub-view's projection, not of its own.
\<close>

theorem stereo_own_projection_counterexample:
  "\<not> strict stereo_frame
   \<and> submitted_projections
        (snd (frame_handler test_library stereo_frame (init_state test_library))) \<noteq> None
   \<and> submitted_projections
        (snd (frame_handler test_library stereo_frame (init_state test_library)))
      \<noteq> Some (map (own_projection test_library (scratch_frustum (init_state test_library))
                      (fuse_fov (pi / 3) (wheel stereo_frame) (pinch stereo_frame)))
                 (fs_subviews stereo_frame))"
  using left_right_differ
  by (simp add: stereo_result stereo_own stereo_frame_facts(1))

end
